theory Spec2Isabelle
  imports Main
begin

section \<open>Domain model (app/domain/models.py)\<close>

text \<open>
  Identifiers and timestamps are opaque to the code under study: a \<open>UUID\<close> is only
  compared, stored and printed, a \<open>datetime\<close> is only read from the clock, stored and
  printed. Both are modelled by natural numbers; every reading of \<open>datetime.utcnow()\<close>
  and every \<open>uuid4()\<close> is an explicit argument of the function that makes the call.
\<close>

type_synonym uuid = nat
type_synonym datetime = nat

datatype TaskStatus = PENDING | IN_PROGRESS | COMPLETED | CANCELLED

datatype TaskPriority = LOW | MEDIUM | HIGH | CRITICAL

text \<open>The enumerations' \<open>.value\<close> attribute.\<close>

fun status_value :: "TaskStatus \<Rightarrow> string" where
  "status_value PENDING = ''pending''"
| "status_value IN_PROGRESS = ''in_progress''"
| "status_value COMPLETED = ''completed''"
| "status_value CANCELLED = ''cancelled''"

fun priority_value :: "TaskPriority \<Rightarrow> string" where
  "priority_value LOW = ''low''"
| "priority_value MEDIUM = ''medium''"
| "priority_value HIGH = ''high''"
| "priority_value CRITICAL = ''critical''"

text \<open>What an f-string prints for a member of a plain \<open>Enum\<close>: class and member name.\<close>

fun status_str :: "TaskStatus \<Rightarrow> string" where
  "status_str PENDING = ''TaskStatus.PENDING''"
| "status_str IN_PROGRESS = ''TaskStatus.IN_PROGRESS''"
| "status_str COMPLETED = ''TaskStatus.COMPLETED''"
| "status_str CANCELLED = ''TaskStatus.CANCELLED''"

record Task =
  id' :: uuid
  title :: string
  description :: string
  status :: TaskStatus
  priority :: TaskPriority
  created_at :: datetime
  updated_at :: datetime
  completed_at :: "datetime option"
  assigned_to :: "string option"

section \<open>Exceptions (app/domain/exceptions.py and the built-in ones the code raises)\<close>

text \<open>
  One constructor per exception class that can reach a caller. \<open>ValueError\<close> and
  \<open>RuntimeError\<close> are Python's built-in classes and carry their message;
  the domain exceptions carry the arguments of their constructors, from which the
  message and the detail map are computed. \<open>BrokerError\<close> stands for whatever the
  Redis client raises, \<open>DataError\<close> for SQLAlchemy's exception of that name, raised
  when the database refuses a value, and \<open>StaleDataError\<close> for the one it raises when
  an UPDATE finds no row.
\<close>

datatype error =
    ValueError string
  | RuntimeError string
  | EntityNotFoundException string uuid
  | BusinessRuleViolationException string string
  | InvalidOperationException string
  | ConcurrencyException string uuid
  | BrokerError string
  | DataError
  | StaleDataError

text \<open>
  The \<open>except\<close> clauses of the start, complete and cancel endpoints
  (presentation/api/tasks.py), in their order: the status code and the \<open>error\<close> label
  of the response an exception of the service turns into. The entity signals an illegal
  transition with \<open>ValueError\<close>, which is reported as \<open>InvalidOperation\<close>;
  \<open>InvalidOperationException\<close> is declared but raised nowhere.
\<close>

fun transition_response :: "error \<Rightarrow> nat \<times> string" where
  "transition_response (EntityNotFoundException t i) = (404, ''EntityNotFoundException'')"
| "transition_response (ValueError m) = (422, ''InvalidOperation'')"
| "transition_response e = (500, ''InternalServerError'')"

section \<open>Entity operations\<close>

text \<open>
  A method mutates \<open>self\<close> or raises. The model returns the exception, if any, together
  with the object as the call leaves it.
\<close>

definition create ::
  "uuid \<Rightarrow> datetime \<Rightarrow> string \<Rightarrow> string \<Rightarrow> TaskPriority \<Rightarrow> string option \<Rightarrow> Task" where
  "create new_id now ttl descr prio assignee =
     \<lparr>id' = new_id, title = ttl, description = descr, status = PENDING, priority = prio,
      created_at = now, updated_at = now, completed_at = None, assigned_to = assignee\<rparr>"

definition start :: "datetime \<Rightarrow> Task \<Rightarrow> error option \<times> Task" where
  "start now self =
     (if status self \<noteq> PENDING
      then (Some (ValueError (''Cannot start task in '' @ status_str (status self) @ '' status'')), self)
      else (None, self\<lparr>status := IN_PROGRESS, updated_at := now\<rparr>))"

definition complete :: "datetime \<Rightarrow> Task \<Rightarrow> error option \<times> Task" where
  "complete now self =
     (if status self = COMPLETED then (Some (ValueError ''Task is already completed''), self)
      else if status self = CANCELLED
      then (Some (ValueError ''Cannot complete a cancelled task''), self)
      else (None, self\<lparr>status := COMPLETED, completed_at := Some now, updated_at := now\<rparr>))"

definition cancel :: "datetime \<Rightarrow> Task \<Rightarrow> error option \<times> Task" where
  "cancel now self =
     (if status self = COMPLETED then (Some (ValueError ''Cannot cancel a completed task''), self)
      else (None, self\<lparr>status := CANCELLED, updated_at := now\<rparr>))"

definition assign_to :: "datetime \<Rightarrow> string \<Rightarrow> Task \<Rightarrow> Task" where
  "assign_to now assignee self = self\<lparr>assigned_to := Some assignee, updated_at := now\<rparr>"


section \<open>Strings\<close>

text \<open>
  A \<open>char\<close> stands for a code point below 256. \<open>is_space\<close> is Python's
  \<open>str.isspace\<close> on one such character, and \<open>strip\<close> is \<open>str.strip()\<close> without
  arguments: leading and trailing whitespace removed.
\<close>

definition is_space :: "char \<Rightarrow> bool" where
  "is_space c = ((of_char c :: nat) \<in> {9, 10, 11, 12, 13, 28, 29, 30, 31, 32, 133, 160})"

definition strip :: "string \<Rightarrow> string" where
  "strip s = rev (dropWhile is_space (rev (dropWhile is_space s)))"

section \<open>Domain events (app/domain/events.py)\<close>

text \<open>
  The values a wire mapping holds: \<open>None\<close>, a string, or a nested mapping. A Python
  \<open>dict\<close> literal is an association list in the order the source writes its keys.
\<close>

datatype json = JNull | JStr string | JObj "(string \<times> json) list"

type_synonym dict = "(string \<times> json) list"

text \<open>
  The library functions the code calls on opaque values: \<open>str\<close> on a \<open>UUID\<close>,
  \<open>datetime.isoformat\<close>, and \<open>json.dumps\<close>.
\<close>

record pylib =
  str_uuid :: "uuid \<Rightarrow> string"
  isoformat :: "datetime \<Rightarrow> string"
  json_dumps :: "dict \<Rightarrow> string"

text \<open>
  Each event class with its fields in declaration order: the two fields of the base
  class \<open>DomainEvent\<close> (\<open>event_id\<close>, \<open>occurred_at\<close>) first, then the subclass's own.
\<close>

datatype DomainEvent =
    TaskCreatedEvent uuid datetime uuid string "string option" string
  | TaskStartedEvent uuid datetime uuid "string option"
  | TaskCompletedEvent uuid datetime uuid "string option"
  | TaskCancelledEvent uuid datetime uuid "string option" "string option"
  | TaskAssignedEvent uuid datetime uuid string "string option"

fun event_id :: "DomainEvent \<Rightarrow> uuid" where
  "event_id (TaskCreatedEvent e t tid ttl a p) = e"
| "event_id (TaskStartedEvent e t tid by) = e"
| "event_id (TaskCompletedEvent e t tid by) = e"
| "event_id (TaskCancelledEvent e t tid by r) = e"
| "event_id (TaskAssignedEvent e t tid a by) = e"

fun occurred_at :: "DomainEvent \<Rightarrow> datetime" where
  "occurred_at (TaskCreatedEvent e t tid ttl a p) = t"
| "occurred_at (TaskStartedEvent e t tid by) = t"
| "occurred_at (TaskCompletedEvent e t tid by) = t"
| "occurred_at (TaskCancelledEvent e t tid by r) = t"
| "occurred_at (TaskAssignedEvent e t tid a by) = t"

text \<open>\<open>self.__class__.__name__\<close>\<close>

fun class_name :: "DomainEvent \<Rightarrow> string" where
  "class_name (TaskCreatedEvent e t tid ttl a p) = ''TaskCreatedEvent''"
| "class_name (TaskStartedEvent e t tid by) = ''TaskStartedEvent''"
| "class_name (TaskCompletedEvent e t tid by) = ''TaskCompletedEvent''"
| "class_name (TaskCancelledEvent e t tid by r) = ''TaskCancelledEvent''"
| "class_name (TaskAssignedEvent e t tid a by) = ''TaskAssignedEvent''"

text \<open>An optional string field is put into the mapping as it is: \<open>None\<close> or the string.\<close>

fun opt_str :: "string option \<Rightarrow> json" where
  "opt_str None = JNull"
| "opt_str (Some s) = JStr s"

fun get_event_data :: "pylib \<Rightarrow> DomainEvent \<Rightarrow> dict" where
  "get_event_data lib (TaskCreatedEvent e t tid ttl a p) =
     [(''task_id'', JStr (str_uuid lib tid)), (''title'', JStr ttl),
      (''assigned_to'', opt_str a), (''priority'', JStr p)]"
| "get_event_data lib (TaskStartedEvent e t tid by) =
     [(''task_id'', JStr (str_uuid lib tid)), (''started_by'', opt_str by)]"
| "get_event_data lib (TaskCompletedEvent e t tid by) =
     [(''task_id'', JStr (str_uuid lib tid)), (''completed_by'', opt_str by)]"
| "get_event_data lib (TaskCancelledEvent e t tid by r) =
     [(''task_id'', JStr (str_uuid lib tid)), (''cancelled_by'', opt_str by),
      (''reason'', opt_str r)]"
| "get_event_data lib (TaskAssignedEvent e t tid a by) =
     [(''task_id'', JStr (str_uuid lib tid)), (''assigned_to'', JStr a),
      (''assigned_by'', opt_str by)]"

definition to_dict :: "pylib \<Rightarrow> DomainEvent \<Rightarrow> dict" where
  "to_dict lib ev =
     [(''event_type'', JStr (class_name ev)),
      (''event_id'', JStr (str_uuid lib (event_id ev))),
      (''occurred_at'', JStr (isoformat lib (occurred_at ev))),
      (''data'', JObj (get_event_data lib ev))]"

text \<open>Subscripting a mapping, \<open>d[key]\<close>; \<open>None\<close> is Python's \<open>KeyError\<close>.\<close>

definition getitem :: "dict \<Rightarrow> string \<Rightarrow> json option" where
  "getitem d k = map_of d k"

text \<open>\<open>d["data"][key]\<close>\<close>

definition data_item :: "dict \<Rightarrow> string \<Rightarrow> json option" where
  "data_item d k = (case getitem d ''data'' of Some (JObj dd) \<Rightarrow> getitem dd k | _ \<Rightarrow> None)"

section \<open>Persistence (app/infrastructure/database)\<close>

text \<open>A row of table \<open>tasks\<close>: the columns of \<open>TaskModel\<close> (database/models.py).\<close>

record TaskModel =
  m_id :: uuid
  m_title :: string
  m_description :: string
  m_status :: TaskStatus
  m_priority :: TaskPriority
  m_assigned_to :: "string option"
  m_created_at :: datetime
  m_updated_at :: datetime
  m_completed_at :: "datetime option"

definition to_domain :: "TaskModel \<Rightarrow> Task" where
  "to_domain model =
     \<lparr>id' = m_id model, title = m_title model, description = m_description model,
      status = m_status model, priority = m_priority model,
      created_at = m_created_at model, updated_at = m_updated_at model,
      completed_at = m_completed_at model, assigned_to = m_assigned_to model\<rparr>"

definition to_model :: "Task \<Rightarrow> TaskModel" where
  "to_model entity =
     \<lparr>m_id = id' entity, m_title = title entity, m_description = description entity,
      m_status = status entity, m_priority = priority entity,
      m_assigned_to = assigned_to entity, m_created_at = created_at entity,
      m_updated_at = updated_at entity, m_completed_at = completed_at entity\<rparr>"

text \<open>
  What PostgreSQL makes of a string assigned to a column. No text value may contain the
  character NUL. A \<open>character varying(n)\<close> column (\<open>String(n)\<close> in the model class)
  moreover refuses a value of more than \<open>n\<close> characters, unless the characters beyond
  the \<open>n\<close>-th are all spaces, which it drops. A refusal is a \<open>DataError\<close>.
\<close>

definition pg_text :: "string \<Rightarrow> error + string" where
  "pg_text s = (if CHR 0x00 \<in> set s then Inl DataError else Inr s)"

definition pg_varchar :: "nat \<Rightarrow> string \<Rightarrow> error + string" where
  "pg_varchar n s =
     (if CHR 0x00 \<in> set s then Inl DataError
      else if length s \<le> n then Inr s
      else if list_all (\<lambda>c. c = CHR '' '') (drop n s) then Inr (take n s)
      else Inl DataError)"

definition pg_opt_varchar :: "nat \<Rightarrow> string option \<Rightarrow> error + string option" where
  "pg_opt_varchar n v =
     (case v of
        None \<Rightarrow> Inr None
      | Some s \<Rightarrow> (case pg_varchar n s of Inl e \<Rightarrow> Inl e | Inr s' \<Rightarrow> Inr (Some s')))"

text \<open>
  The row an INSERT stores: \<open>title\<close> and \<open>assigned_to\<close> are \<open>String(255)\<close>
  columns, \<open>description\<close> is \<open>Text\<close> (database/models.py).
\<close>

definition pg_insert :: "TaskModel \<Rightarrow> error + TaskModel" where
  "pg_insert m =
     (case pg_varchar 255 (m_title m) of
        Inl e \<Rightarrow> Inl e
      | Inr t \<Rightarrow>
          (case pg_text (m_description m) of
             Inl e \<Rightarrow> Inl e
           | Inr d \<Rightarrow>
               (case pg_opt_varchar 255 (m_assigned_to m) of
                  Inl e \<Rightarrow> Inl e
                | Inr a \<Rightarrow> Inr (m\<lparr>m_title := t, m_description := d, m_assigned_to := a\<rparr>))))"

text \<open>
  The row an UPDATE of row \<open>r\<close> to the attribute values of \<open>m\<close> stores: the
  statement sets the changed columns only, so only their values are assigned.
\<close>

definition changed_col :: "('a \<Rightarrow> error + 'a) \<Rightarrow> 'a \<Rightarrow> 'a \<Rightarrow> error + 'a" where
  "changed_col assign old new = (if new = old then Inr old else assign new)"

definition pg_update :: "TaskModel \<Rightarrow> TaskModel \<Rightarrow> error + TaskModel" where
  "pg_update r m =
     (case changed_col (pg_varchar 255) (m_title r) (m_title m) of
        Inl e \<Rightarrow> Inl e
      | Inr t \<Rightarrow>
          (case changed_col pg_text (m_description r) (m_description m) of
             Inl e \<Rightarrow> Inl e
           | Inr d \<Rightarrow>
               (case changed_col (pg_opt_varchar 255) (m_assigned_to r) (m_assigned_to m) of
                  Inl e \<Rightarrow> Inl e
                | Inr a \<Rightarrow> Inr (m\<lparr>m_title := t, m_description := d, m_assigned_to := a\<rparr>))))"

text \<open>
  An SQLAlchemy \<open>Session\<close> holds the changes made through it until \<open>commit\<close> writes
  them to the table or \<open>rollback\<close> drops them. \<open>Add\<close> is \<open>session.add\<close> of a new
  object, \<open>Modify\<close> an attribute assignment on a loaded one (the row with the new
  attribute values). The table is the list of committed rows; the database is taken to be
  reachable. A commit that the database refuses raises and writes nothing.

  On flush, a loaded object none of whose attributes differs from its row causes no
  UPDATE; otherwise column \<open>updated_at\<close>, declared with \<open>onupdate=datetime.utcnow\<close>,
  takes the flush time when the UPDATE does not set it.
\<close>

datatype change = Add TaskModel | Modify TaskModel

type_synonym Session = "change list"

fun apply_change :: "datetime \<Rightarrow> change \<Rightarrow> TaskModel list \<Rightarrow> error + TaskModel list" where
  "apply_change db_now (Add m) tbl =
     (case pg_insert m of Inl e \<Rightarrow> Inl e | Inr m' \<Rightarrow> Inr (tbl @ [m']))"
| "apply_change db_now (Modify m) tbl =
     (case find (\<lambda>r. m_id r = m_id m) tbl of
        None \<Rightarrow> Inl StaleDataError
      | Some r \<Rightarrow>
          if m = r then Inr tbl
          else (case pg_update r m of
                  Inl e \<Rightarrow> Inl e
                | Inr m' \<Rightarrow>
                    Inr (map (\<lambda>x. if m_id x \<noteq> m_id m then x
                                   else if m_updated_at m = m_updated_at r
                                   then m'\<lparr>m_updated_at := db_now\<rparr>
                                   else m') tbl)))"

fun session_commit :: "datetime \<Rightarrow> Session \<Rightarrow> TaskModel list \<Rightarrow> error + TaskModel list" where
  "session_commit db_now [] tbl = Inr tbl"
| "session_commit db_now (c # session) tbl =
     (case apply_change db_now c tbl of
        Inl e \<Rightarrow> Inl e
      | Inr tbl' \<Rightarrow> session_commit db_now session tbl')"

text \<open>\<open>session.refresh(obj)\<close>: the object's row, read again by primary key.\<close>

definition refresh :: "TaskModel \<Rightarrow> TaskModel list \<Rightarrow> TaskModel" where
  "refresh obj tbl = (case find (\<lambda>r. m_id r = m_id obj) tbl of Some r \<Rightarrow> r | None \<Rightarrow> obj)"

text \<open>
  What one call may observe and change: the committed table, the session of the unit of
  work (\<open>SQLAlchemyUnitOfWork._session\<close>), the event publisher's client and broker, the
  entries of the Redis stream, and a record of the calls made on the repository's
  \<open>save\<close>, on the publisher and on the unit of work (what a test's mock would record).
\<close>

datatype call = SaveCall Task | PublishCall string dict | CommitCall | RollbackCall

record World =
  tasks :: "TaskModel list"
  uow_session :: "Session option"
  client_initialized :: bool
  broker_up :: bool
  stream :: "(string \<times> string) list list"
  calls :: "call list"

subsection \<open>SQLAlchemyTaskRepository (repositories/task_repository.py)\<close>

text \<open>
  Every method opens a session of its own with \<open>db_session.get_session()\<close>, and
  \<open>save\<close> commits that session before it returns. When the commit raises,
  \<open>get_session\<close> rolls the session back and the exception goes on to the caller.
\<close>

definition get_by_id :: "uuid \<Rightarrow> World \<Rightarrow> Task option" where
  "get_by_id task_id w =
     (case find (\<lambda>m. m_id m = task_id) (tasks w) of
        Some model \<Rightarrow> Some (to_domain model)
      | None \<Rightarrow> None)"

definition save :: "datetime \<Rightarrow> Task \<Rightarrow> World \<Rightarrow> (error + Task) \<times> World" where
  "save db_now task w0 =
     (let w = w0\<lparr>calls := calls w0 @ [SaveCall task]\<rparr>;
          session = [] in
      case find (\<lambda>m. m_id m = id' task) (tasks w) of
        Some existing \<Rightarrow>
          (let existing' = existing
                 \<lparr>m_title := title task, m_description := description task,
                  m_status := status task, m_priority := priority task,
                  m_assigned_to := assigned_to task, m_updated_at := updated_at task,
                  m_completed_at := completed_at task\<rparr>
           in case session_commit db_now (session @ [Modify existing']) (tasks w) of
                Inl e \<Rightarrow> (Inl e, w)
              | Inr tbl \<Rightarrow> (Inr (to_domain (refresh existing' tbl)), w\<lparr>tasks := tbl\<rparr>))
      | None \<Rightarrow>
          (let model = to_model task
           in case session_commit db_now (session @ [Add model]) (tasks w) of
                Inl e \<Rightarrow> (Inl e, w)
              | Inr tbl \<Rightarrow> (Inr (to_domain (refresh model tbl)), w\<lparr>tasks := tbl\<rparr>)))"

definition matches ::
  "TaskStatus option \<Rightarrow> string option \<Rightarrow> TaskPriority option \<Rightarrow> TaskModel \<Rightarrow> bool" where
  "matches st asg pr m =
     ((case st of None \<Rightarrow> True | Some s \<Rightarrow> m_status m = s) \<and>
      (case asg of None \<Rightarrow> True | Some a \<Rightarrow> m_assigned_to m = Some a) \<and>
      (case pr of None \<Rightarrow> True | Some p \<Rightarrow> m_priority m = p))"

text \<open>
  \<open>ORDER BY created_at DESC\<close>, then \<open>LIMIT\<close> and \<open>OFFSET\<close>. SQL leaves the order of
  rows with equal keys open; the model keeps a fixed one.
\<close>

definition get_all ::
  "TaskStatus option \<Rightarrow> string option \<Rightarrow> TaskPriority option \<Rightarrow> nat \<Rightarrow> nat \<Rightarrow> World \<Rightarrow> Task list" where
  "get_all st asg pr limit offset w =
     map to_domain
       (take limit (drop offset (rev (sort_key m_created_at (filter (matches st asg pr) (tasks w))))))"

definition count :: "TaskStatus option \<Rightarrow> string option \<Rightarrow> World \<Rightarrow> nat" where
  "count st asg w = length (filter (matches st asg None) (tasks w))"

subsection \<open>SQLAlchemyUnitOfWork (unit_of_work.py)\<close>

definition uow_enter :: "World \<Rightarrow> error option \<times> World" where
  "uow_enter w =
     (if uow_session w \<noteq> None then (Some (RuntimeError ''Unit of work already active''), w)
      else (None, w\<lparr>uow_session := Some []\<rparr>))"

definition uow_commit :: "datetime \<Rightarrow> World \<Rightarrow> error option \<times> World" where
  "uow_commit db_now w0 =
     (let w = w0\<lparr>calls := calls w0 @ [CommitCall]\<rparr> in
      case uow_session w of
        None \<Rightarrow> (Some (RuntimeError ''No active transaction''), w)
      | Some session \<Rightarrow>
          (case session_commit db_now session (tasks w) of
             Inl e \<Rightarrow> (Some e, w\<lparr>uow_session := Some []\<rparr>)
           | Inr tbl \<Rightarrow> (None, w\<lparr>tasks := tbl, uow_session := Some []\<rparr>)))"

definition uow_rollback :: "World \<Rightarrow> error option \<times> World" where
  "uow_rollback w0 =
     (let w = w0\<lparr>calls := calls w0 @ [RollbackCall]\<rparr> in
      case uow_session w of
        None \<Rightarrow> (Some (RuntimeError ''No active transaction''), w)
      | Some session \<Rightarrow> (None, w\<lparr>uow_session := Some []\<rparr>))"

text \<open>
  \<open>__exit__\<close>: commit when the block raised nothing, roll back otherwise; in either
  case (\<open>finally\<close>) the session is closed and forgotten. It returns \<open>None\<close>, so an
  exception of the block goes on to the caller.
\<close>

definition uow_exit :: "datetime \<Rightarrow> error option \<Rightarrow> World \<Rightarrow> error option \<times> World" where
  "uow_exit db_now exc w =
     (if uow_session w = None then (None, w)
      else (let (r, w') = (if exc = None then uow_commit db_now w else uow_rollback w)
            in (r, w'\<lparr>uow_session := None\<rparr>)))"

text \<open>
  The statement \<open>with self.unit_of_work: body\<close>. An exception of \<open>__enter__\<close> skips
  the block and \<open>__exit__\<close>; an exception of the block is raised again after
  \<open>__exit__\<close>, unless \<open>__exit__\<close> raises one itself.
\<close>

definition with_uow ::
  "datetime \<Rightarrow> (World \<Rightarrow> (error + 'a) \<times> World) \<Rightarrow> World \<Rightarrow> (error + 'a) \<times> World" where
  "with_uow db_now body w =
     (case uow_enter w of
        (Some e, w1) \<Rightarrow> (Inl e, w1)
      | (None, w1) \<Rightarrow>
          (case body w1 of
             (Inl e, w2) \<Rightarrow>
               (case uow_exit db_now (Some e) w2 of
                  (Some e', w3) \<Rightarrow> (Inl e', w3)
                | (None, w3) \<Rightarrow> (Inl e, w3))
           | (Inr v, w2) \<Rightarrow>
               (case uow_exit db_now None w2 of
                  (Some e', w3) \<Rightarrow> (Inl e', w3)
                | (None, w3) \<Rightarrow> (Inr v, w3))))"

subsection \<open>RedisEventPublisher (messaging/redis_publisher.py)\<close>

text \<open>
  \<open>publish\<close> raises \<open>RuntimeError\<close> before \<open>initialize\<close>, and lets through whatever
  \<open>xadd\<close> raises; otherwise the stream has one more entry.
\<close>

definition publish :: "pylib \<Rightarrow> string \<Rightarrow> dict \<Rightarrow> World \<Rightarrow> error option \<times> World" where
  "publish lib event_type event_data w0 =
     (let w = w0\<lparr>calls := calls w0 @ [PublishCall event_type event_data]\<rparr> in
      if \<not> client_initialized w then (Some (RuntimeError ''Redis client not initialized''), w)
      else if \<not> broker_up w then (Some (BrokerError ''xadd''), w)
      else (None, w\<lparr>stream := stream w @
              [[(''event_type'', event_type), (''data'', json_dumps lib event_data)]]\<rparr>))"

section \<open>TaskService (app/application/services/task_service.py)\<close>

text \<open>
  Every use case takes the clock readings and fresh identifiers it consumes: \<open>now\<close>
  is the entity's \<open>datetime.utcnow()\<close>, \<open>db_now\<close> the time of a flush,
  \<open>ev_id\<close> and \<open>occurred\<close> the event's \<open>uuid4()\<close> and \<open>datetime.utcnow()\<close>. A
  result \<open>Inl e\<close> is the exception the call raises, \<open>Inr v\<close> the value it returns.
\<close>

text \<open>
  The three statements that end each mutating use case: publish the event's mapping,
  commit the unit of work, return the saved task.
\<close>

definition publish_commit_return ::
  "pylib \<Rightarrow> datetime \<Rightarrow> string \<Rightarrow> DomainEvent \<Rightarrow> Task \<Rightarrow> World \<Rightarrow> (error + Task) \<times> World" where
  "publish_commit_return lib db_now event_type event saved_task w =
     (case publish lib event_type (to_dict lib event) w of
        (Some e, w1) \<Rightarrow> (Inl e, w1)
      | (None, w1) \<Rightarrow>
          (case uow_commit db_now w1 of
             (Some e, w2) \<Rightarrow> (Inl e, w2)
           | (None, w2) \<Rightarrow> (Inr saved_task, w2)))"

definition create_task ::
  "pylib \<Rightarrow> uuid \<Rightarrow> datetime \<Rightarrow> datetime \<Rightarrow> uuid \<Rightarrow> datetime \<Rightarrow>
   string \<Rightarrow> string \<Rightarrow> TaskPriority \<Rightarrow> string option \<Rightarrow> string option \<Rightarrow>
   World \<Rightarrow> (error + Task) \<times> World" where
  "create_task lib new_id now db_now ev_id occurred ttl descr prio assignee user_id w =
     (if ttl = [] \<or> strip ttl = []
      then (Inl (BusinessRuleViolationException ''task_title_required''
                   ''Task title cannot be empty''), w)
      else if descr = [] \<or> strip descr = []
      then (Inl (BusinessRuleViolationException ''task_description_required''
                   ''Task description cannot be empty''), w)
      else with_uow db_now (\<lambda>w.
             let task = create new_id now (strip ttl) (strip descr) prio assignee
             in case save db_now task w of
                  (Inl e, w1) \<Rightarrow> (Inl e, w1)
                | (Inr saved_task, w1) \<Rightarrow>
                    (let event = TaskCreatedEvent ev_id occurred (id' saved_task)
                           (title saved_task) (assigned_to saved_task)
                           (priority_value (priority saved_task))
                     in publish_commit_return lib db_now ''task.created'' event saved_task w1)) w)"

definition get_task :: "uuid \<Rightarrow> World \<Rightarrow> error + Task" where
  "get_task task_id w =
     (case get_by_id task_id w of
        None \<Rightarrow> Inl (EntityNotFoundException ''Task'' task_id)
      | Some task \<Rightarrow> Inr task)"

definition start_task ::
  "pylib \<Rightarrow> datetime \<Rightarrow> datetime \<Rightarrow> uuid \<Rightarrow> datetime \<Rightarrow> uuid \<Rightarrow> string option \<Rightarrow>
   World \<Rightarrow> (error + Task) \<times> World" where
  "start_task lib now db_now ev_id occurred task_id user_id w =
     with_uow db_now (\<lambda>w.
       case get_task task_id w of
         Inl e \<Rightarrow> (Inl e, w)
       | Inr task \<Rightarrow>
           (case start now task of
              (Some e, task') \<Rightarrow> (Inl e, w)
            | (None, task') \<Rightarrow>
                (case save db_now task' w of
                   (Inl e, w1) \<Rightarrow> (Inl e, w1)
                 | (Inr saved_task, w1) \<Rightarrow>
                     (let event = TaskStartedEvent ev_id occurred task_id user_id
                      in publish_commit_return lib db_now ''task.started'' event saved_task w1)))) w"

definition complete_task ::
  "pylib \<Rightarrow> datetime \<Rightarrow> datetime \<Rightarrow> uuid \<Rightarrow> datetime \<Rightarrow> uuid \<Rightarrow> string option \<Rightarrow>
   World \<Rightarrow> (error + Task) \<times> World" where
  "complete_task lib now db_now ev_id occurred task_id user_id w =
     with_uow db_now (\<lambda>w.
       case get_task task_id w of
         Inl e \<Rightarrow> (Inl e, w)
       | Inr task \<Rightarrow>
           (case complete now task of
              (Some e, task') \<Rightarrow> (Inl e, w)
            | (None, task') \<Rightarrow>
                (case save db_now task' w of
                   (Inl e, w1) \<Rightarrow> (Inl e, w1)
                 | (Inr saved_task, w1) \<Rightarrow>
                     (let event = TaskCompletedEvent ev_id occurred task_id user_id
                      in publish_commit_return lib db_now ''task.completed'' event saved_task w1)))) w"

definition cancel_task ::
  "pylib \<Rightarrow> datetime \<Rightarrow> datetime \<Rightarrow> uuid \<Rightarrow> datetime \<Rightarrow> uuid \<Rightarrow> string option \<Rightarrow>
   string option \<Rightarrow> World \<Rightarrow> (error + Task) \<times> World" where
  "cancel_task lib now db_now ev_id occurred task_id reason user_id w =
     with_uow db_now (\<lambda>w.
       case get_task task_id w of
         Inl e \<Rightarrow> (Inl e, w)
       | Inr task \<Rightarrow>
           (case cancel now task of
              (Some e, task') \<Rightarrow> (Inl e, w)
            | (None, task') \<Rightarrow>
                (case save db_now task' w of
                   (Inl e, w1) \<Rightarrow> (Inl e, w1)
                 | (Inr saved_task, w1) \<Rightarrow>
                     (let event = TaskCancelledEvent ev_id occurred task_id user_id reason
                      in publish_commit_return lib db_now ''task.cancelled'' event saved_task w1)))) w"

definition assign_task ::
  "pylib \<Rightarrow> datetime \<Rightarrow> datetime \<Rightarrow> uuid \<Rightarrow> datetime \<Rightarrow> uuid \<Rightarrow> string \<Rightarrow>
   string option \<Rightarrow> World \<Rightarrow> (error + Task) \<times> World" where
  "assign_task lib now db_now ev_id occurred task_id assignee user_id w =
     (if assignee = [] \<or> strip assignee = []
      then (Inl (BusinessRuleViolationException ''assignee_required''
                   ''Assignee cannot be empty''), w)
      else with_uow db_now (\<lambda>w.
             case get_task task_id w of
               Inl e \<Rightarrow> (Inl e, w)
             | Inr task \<Rightarrow>
                 (let task' = assign_to now (strip assignee) task
                  in case save db_now task' w of
                       (Inl e, w1) \<Rightarrow> (Inl e, w1)
                     | (Inr saved_task, w1) \<Rightarrow>
                         (let event = TaskAssignedEvent ev_id occurred task_id assignee user_id
                          in publish_commit_return lib db_now ''task.assigned'' event
                               saved_task w1))) w)"

text \<open>The dictionary \<open>get_task_statistics\<close> returns, one field per key.\<close>

record Statistics =
  total :: nat
  by_status :: "string \<rightharpoonup> nat"
  by_priority :: "string \<rightharpoonup> nat"

text \<open>
  One round of \<open>for status in TaskStatus\<close>: the status gets an entry when its count is
  positive.
\<close>

definition status_step :: "string option \<Rightarrow> World \<Rightarrow> TaskStatus \<Rightarrow> (string \<rightharpoonup> nat) \<Rightarrow> (string \<rightharpoonup> nat)" where
  "status_step asg w st d =
     (let c = count (Some st) asg w in if c > 0 then d(status_value st \<mapsto> c) else d)"

text \<open>
  One round of \<open>for task in tasks\<close>:
  \<open>priority_counts[v] = priority_counts.get(v, 0) + 1\<close>.
\<close>

definition priority_step :: "Task \<Rightarrow> (string \<rightharpoonup> nat) \<Rightarrow> (string \<rightharpoonup> nat)" where
  "priority_step task d =
     d(priority_value (priority task) \<mapsto>
         (case d (priority_value (priority task)) of None \<Rightarrow> 0 | Some c \<Rightarrow> c) + 1)"

definition get_task_statistics :: "string option \<Rightarrow> World \<Rightarrow> Statistics" where
  "get_task_statistics asg w =
     \<lparr>total = count None asg w,
      by_status = fold (status_step asg w) [PENDING, IN_PROGRESS, COMPLETED, CANCELLED] Map.empty,
      by_priority = fold priority_step (get_all None asg None 1000 0 w) Map.empty\<rparr>"

section \<open>RedisStreamConsumer (app/infrastructure/messaging/redis_consumer.py)\<close>









section \<open>The state machine of the entity\<close>

lemma status_str_inj: "status_str a = status_str b \<Longrightarrow> a = b"
  by (cases a; cases b) simp_all

text \<open>
  C2. \<open>complete\<close> succeeds exactly when the status is \<open>PENDING\<close> or \<open>IN_PROGRESS\<close>.
  On success the status is \<open>COMPLETED\<close>, \<open>completed_at\<close> is set and equals
  \<open>updated_at\<close>, and completing the completed task again raises the invalid-operation
  error (a \<open>ValueError\<close>, answered with 422 \<open>InvalidOperation\<close>) and leaves the task as
  it was.
\<close>

theorem complete_spec:
  "(fst (complete now t) = None \<longleftrightarrow> status t = PENDING \<or> status t = IN_PROGRESS) \<and>
   (fst (complete now t) = None \<longrightarrow>
      status (snd (complete now t)) = COMPLETED \<and>
      completed_at (snd (complete now t)) = Some now \<and>
      completed_at (snd (complete now t)) = Some (updated_at (snd (complete now t))) \<and>
      complete now' (snd (complete now t)) =
        (Some (ValueError ''Task is already completed''), snd (complete now t)) \<and>
      transition_response (ValueError ''Task is already completed'') = (422, ''InvalidOperation''))"
  by (cases "status t") (simp_all add: complete_def)

theorem complete_spec_witness:
  "fst (complete 7 (create 3 5 ''a'' ''b'' LOW None)) = None \<and>
   status (snd (complete 7 (create 3 5 ''a'' ''b'' LOW None))) = COMPLETED \<and>
   completed_at (snd (complete 7 (create 3 5 ''a'' ''b'' LOW None))) = Some 7 \<and>
   updated_at (snd (complete 7 (create 3 5 ''a'' ''b'' LOW None))) = 7 \<and>
   complete 9 (snd (complete 7 (create 3 5 ''a'' ''b'' LOW None))) =
     (Some (ValueError ''Task is already completed''),
      snd (complete 7 (create 3 5 ''a'' ''b'' LOW None)))"
  using complete_spec [of 7 "create 3 5 ''a'' ''b'' LOW None" 9]
  by (simp add: complete_def create_def)

text \<open>
  C3. \<open>start\<close> succeeds exactly when the status is \<open>PENDING\<close>; then the status
  becomes \<open>IN_PROGRESS\<close> and \<open>updated_at\<close> the current time, nothing else changes.
  From any other status it raises the invalid-operation error and leaves the task as it
  was: a \<open>ValueError\<close> whose message names the operation and the current status (the
  status can be read back from the error), which is neither the not-found nor the
  validation exception and is answered with 422 \<open>InvalidOperation\<close>.
\<close>

theorem start_spec:
  "(fst (start now t) = None \<longleftrightarrow> status t = PENDING) \<and>
   (status t = PENDING \<longrightarrow>
      start now t = (None, t\<lparr>status := IN_PROGRESS, updated_at := now\<rparr>)) \<and>
   (status t \<noteq> PENDING \<longrightarrow>
      start now t =
        (Some (ValueError (''Cannot start task in '' @ status_str (status t) @ '' status'')), t) \<and>
      (\<forall>now' t'. fst (start now' t') = fst (start now t) \<longrightarrow> status t' = status t) \<and>
      (\<forall>ty i. fst (start now t) \<noteq> Some (EntityNotFoundException ty i)) \<and>
      (\<forall>r m. fst (start now t) \<noteq> Some (BusinessRuleViolationException r m)) \<and>
      map_option transition_response (fst (start now t)) = Some (422, ''InvalidOperation''))"
proof -
  have carried: "status t' = status t"
    if "status t \<noteq> PENDING" and "fst (start now' t') = fst (start now t)" for now' t'
  proof -
    from that have "status t' \<noteq> PENDING"
      by (auto simp: start_def split: if_splits)
    with that have "status_str (status t') = status_str (status t)"
      by (simp add: start_def)
    then show ?thesis by (rule status_str_inj)
  qed
  show ?thesis
    using carried by (auto simp: start_def)
qed

theorem start_spec_witness:
  "start 8 (create 3 5 ''a'' ''b'' LOW None) =
     (None, (create 3 5 ''a'' ''b'' LOW None)\<lparr>status := IN_PROGRESS, updated_at := 8\<rparr>) \<and>
   start 9 (snd (start 8 (create 3 5 ''a'' ''b'' LOW None))) =
     (Some (ValueError ''Cannot start task in TaskStatus.IN_PROGRESS status''),
      snd (start 8 (create 3 5 ''a'' ''b'' LOW None)))"
proof -
  let ?t = "create 3 5 ''a'' ''b'' LOW None"
  have p: "status ?t = PENDING"
    by (simp add: create_def)
  have ok: "start 8 ?t = (None, ?t\<lparr>status := IN_PROGRESS, updated_at := 8\<rparr>)"
    by (rule start_spec [THEN conjunct2, THEN conjunct1, THEN mp, OF p])
  have q: "status (snd (start 8 ?t)) \<noteq> PENDING"
    unfolding ok by simp
  have "start 9 (snd (start 8 ?t)) =
      (Some (ValueError (''Cannot start task in '' @ status_str (status (snd (start 8 ?t))) @ '' status'')),
       snd (start 8 ?t))"
    by (rule start_spec [THEN conjunct2, THEN conjunct2, THEN mp, OF q, THEN conjunct1])
  moreover have "status (snd (start 8 ?t)) = IN_PROGRESS"
    unfolding ok by simp
  ultimately show ?thesis
    using ok by simp
qed

text \<open>
  C4. \<open>cancel\<close> raises the invalid-operation error exactly when the status is
  \<open>COMPLETED\<close>, and then leaves the task as it was. From \<open>PENDING\<close>, \<open>IN_PROGRESS\<close>
  and \<open>CANCELLED\<close> it succeeds: the status becomes \<open>CANCELLED\<close> and \<open>updated_at\<close> the
  current time, nothing else changes.
\<close>

theorem cancel_spec:
  "(fst (cancel now t) \<noteq> None \<longleftrightarrow> status t = COMPLETED) \<and>
   (status t = COMPLETED \<longrightarrow>
      cancel now t = (Some (ValueError ''Cannot cancel a completed task''), t) \<and>
      map_option transition_response (fst (cancel now t)) = Some (422, ''InvalidOperation'')) \<and>
   (status t \<in> {PENDING, IN_PROGRESS, CANCELLED} \<longrightarrow>
      cancel now t = (None, t\<lparr>status := CANCELLED, updated_at := now\<rparr>))"
  by (cases "status t") (simp_all add: cancel_def)

theorem cancel_spec_witness:
  "cancel 8 (create 3 5 ''a'' ''b'' LOW None) =
     (None, (create 3 5 ''a'' ''b'' LOW None)\<lparr>status := CANCELLED, updated_at := 8\<rparr>) \<and>
   cancel 9 (snd (cancel 8 (create 3 5 ''a'' ''b'' LOW None))) =
     (None, (create 3 5 ''a'' ''b'' LOW None)\<lparr>status := CANCELLED, updated_at := 9\<rparr>) \<and>
   cancel 9 (snd (complete 8 (create 3 5 ''a'' ''b'' LOW None))) =
     (Some (ValueError ''Cannot cancel a completed task''),
      snd (complete 8 (create 3 5 ''a'' ''b'' LOW None)))"
  using cancel_spec [of 8 "create 3 5 ''a'' ''b'' LOW None"]
    cancel_spec [of 9 "snd (cancel 8 (create 3 5 ''a'' ''b'' LOW None))"]
    cancel_spec [of 9 "snd (complete 8 (create 3 5 ''a'' ''b'' LOW None))"]
  by (simp add: cancel_def complete_def create_def)

section \<open>The wire mapping of an event\<close>





section \<open>The use cases of the service\<close>

lemma strip_Nil_iff: "strip s = [] \<longleftrightarrow> (\<forall>c\<in>set s. is_space c)"
proof -
  have "dropWhile is_space (rev (dropWhile is_space s)) = [] \<longleftrightarrow> dropWhile is_space s = []"
  proof
    assume a: "dropWhile is_space (rev (dropWhile is_space s)) = []"
    show "dropWhile is_space s = []"
    proof (rule ccontr)
      assume n: "dropWhile is_space s \<noteq> []"
      then have "\<not> is_space (hd (dropWhile is_space s))"
        by (rule hd_dropWhile)
      moreover from n have "hd (dropWhile is_space s) \<in> set (rev (dropWhile is_space s))"
        by simp
      ultimately show False
        using a by (simp add: dropWhile_eq_Nil_conv)
    qed
  next
    assume "dropWhile is_space s = []"
    then show "dropWhile is_space (rev (dropWhile is_space s)) = []"
      by (simp only: rev.simps dropWhile.simps)
  qed
  then show ?thesis
    by (simp add: strip_def dropWhile_eq_Nil_conv)
qed

lemma to_domain_to_model: "to_domain (to_model t) = t"
  by (simp add: to_domain_def to_model_def)

lemma get_by_id_None: "get_by_id i w = None \<longleftrightarrow> find (\<lambda>m. m_id m = i) (tasks w) = None"
  by (simp add: get_by_id_def split: option.splits)

lemma find_append_None: "find P xs = None \<Longrightarrow> find P (xs @ ys) = find P ys"
  by (induction xs) (auto split: if_splits)

lemma find_map_same:
  assumes "\<And>r. P (f r) \<longleftrightarrow> P r"
  shows "find P (map f xs) = map_option f (find P xs)"
  by (induction xs) (simp_all add: assms)

lemma pg_varchar_fits: "CHR 0x00 \<notin> set s \<Longrightarrow> length s \<le> n \<Longrightarrow> pg_varchar n s = Inr s"
  by (simp add: pg_varchar_def)

lemma pg_opt_varchar_fits:
  assumes "case v of None \<Rightarrow> True | Some a \<Rightarrow> CHR 0x00 \<notin> set a \<and> length a \<le> n"
  shows "pg_opt_varchar n v = Inr v"
  using assms by (cases v) (simp_all add: pg_opt_varchar_def pg_varchar_fits)

text \<open>A row whose strings the columns take as they are is stored as it is.\<close>

lemma pg_insert_fits:
  assumes "CHR 0x00 \<notin> set (m_title m)" and "length (m_title m) \<le> 255"
    and "CHR 0x00 \<notin> set (m_description m)"
    and "case m_assigned_to m of None \<Rightarrow> True | Some a \<Rightarrow> CHR 0x00 \<notin> set a \<and> length a \<le> 255"
  shows "pg_insert m = Inr m"
  using assms(1-3) pg_opt_varchar_fits [OF assms(4)]
  by (simp add: pg_insert_def pg_varchar_fits pg_text_def)

lemma save_fresh:
  assumes "get_by_id (id' task) w = None"
    and "pg_insert (to_model task) = Inr (to_model task)"
  shows "save db_now task w =
    (Inr task, w\<lparr>tasks := tasks w @ [to_model task], calls := calls w @ [SaveCall task]\<rparr>)"
proof -
  from assms(1) have f: "find (\<lambda>m. m_id m = id' task) (tasks w) = None"
    by (simp add: get_by_id_None)
  then have "find (\<lambda>r. m_id r = id' task) (tasks w @ [to_model task]) = Some (to_model task)"
    by (simp add: find_append_None to_model_def)
  moreover have "m_id (to_model task) = id' task"
    by (simp add: to_model_def)
  ultimately show ?thesis
    using f assms(2) by (simp add: save_def refresh_def to_domain_to_model)
qed

lemma find_Some_id: "find (\<lambda>m. m_id m = i) xs = Some ex \<Longrightarrow> m_id ex = i"
  by (induction xs) (auto split: if_splits)

text \<open>
  Saving a task whose row exists, when the database takes the new values as they are:
  the row read back carries the task's values in every column the update assigns,
  except that \<open>updated_at\<close> may be the flush time, and keeps its \<open>created_at\<close>.
\<close>

lemma save_existing:
  assumes "find (\<lambda>m. m_id m = id' task) (tasks w) = Some ex"
    and "pg_update ex (ex\<lparr>m_title := title task, m_description := description task,
      m_status := status task, m_priority := priority task,
      m_assigned_to := assigned_to task, m_updated_at := updated_at task,
      m_completed_at := completed_at task\<rparr>) =
      Inr (ex\<lparr>m_title := title task, m_description := description task,
      m_status := status task, m_priority := priority task,
      m_assigned_to := assigned_to task, m_updated_at := updated_at task,
      m_completed_at := completed_at task\<rparr>)"
  shows "\<exists>row tbl. save db_now task w =
      (Inr (to_domain row), w\<lparr>tasks := tbl, calls := calls w @ [SaveCall task]\<rparr>) \<and>
    find (\<lambda>m. m_id m = id' task) tbl = Some row \<and>
    m_id row = id' task \<and> m_title row = title task \<and>
    m_description row = description task \<and> m_status row = status task \<and>
    m_priority row = priority task \<and> m_assigned_to row = assigned_to task \<and>
    m_completed_at row = completed_at task \<and> m_created_at row = m_created_at ex"
proof -
  define ex' where "ex' = ex\<lparr>m_title := title task, m_description := description task,
      m_status := status task, m_priority := priority task,
      m_assigned_to := assigned_to task, m_updated_at := updated_at task,
      m_completed_at := completed_at task\<rparr>"
  define row where "row = (if m_updated_at ex' = m_updated_at ex
      then ex'\<lparr>m_updated_at := db_now\<rparr> else ex')"
  define F where "F = (\<lambda>x. if m_id x \<noteq> m_id ex' then x else row)"
  have upd: "pg_update ex ex' = Inr ex'"
    using assms(2) by (simp add: ex'_def)
  have idx: "m_id ex = id' task"
    using assms(1) by (rule find_Some_id)
  then have idx': "m_id ex' = id' task"
    by (simp add: ex'_def)
  have idr: "m_id row = id' task"
    by (simp add: row_def idx')
  have f': "find (\<lambda>r. m_id r = m_id ex') (tasks w) = Some ex"
    using assms(1) by (simp add: idx')
  have colsx: "m_title ex' = title task \<and>
    m_description ex' = description task \<and> m_status ex' = status task \<and>
    m_priority ex' = priority task \<and> m_assigned_to ex' = assigned_to task \<and>
    m_completed_at ex' = completed_at task \<and> m_created_at ex' = m_created_at ex"
    by (simp add: ex'_def)
  show ?thesis
  proof (cases "ex' = ex")
    case True
    have "session_commit db_now [Modify ex'] (tasks w) = Inr (tasks w)"
      using f' True by simp
    moreover have "refresh ex' (tasks w) = ex"
      using f' by (simp add: refresh_def)
    ultimately have "save db_now task w =
        (Inr (to_domain ex), w\<lparr>tasks := tasks w, calls := calls w @ [SaveCall task]\<rparr>)"
      using assms(1) by (simp add: save_def Let_def ex'_def [symmetric])
    moreover have "find (\<lambda>m. m_id m = id' task) (tasks w) = Some ex"
      by (rule assms(1))
    ultimately show ?thesis
      using idx colsx True by blast
  next
    case False
    have keep: "(m_id (F r) = id' task) \<longleftrightarrow> (m_id r = id' task)" for r
      by (simp add: F_def idx' idr)
    have "F ex = row"
      using idx idx' by (simp add: F_def)
    then have found: "find (\<lambda>m. m_id m = id' task) (map F (tasks w)) = Some row"
      using find_map_same [of "\<lambda>m. m_id m = id' task" F "tasks w"] keep assms(1) by simp
    have tbl: "session_commit db_now [Modify ex'] (tasks w) = Inr (map F (tasks w))"
      using f' False upd by (auto simp: F_def row_def)
    have "refresh ex' (map F (tasks w)) = row"
      using found by (simp add: refresh_def idx')
    with assms(1) tbl have "save db_now task w =
        (Inr (to_domain row), w\<lparr>tasks := map F (tasks w), calls := calls w @ [SaveCall task]\<rparr>)"
      by (simp add: save_def Let_def ex'_def [symmetric])
    moreover have "m_title row = title task \<and>
      m_description row = description task \<and> m_status row = status task \<and>
      m_priority row = priority task \<and> m_assigned_to row = assigned_to task \<and>
      m_completed_at row = completed_at task \<and> m_created_at row = m_created_at ex"
      using colsx by (simp add: row_def)
    ultimately show ?thesis
      using found idr by blast
  qed
qed

text \<open>
  The end of a use case when the publisher works: one entry more on the stream, one
  publish and one commit recorded, the saved task returned.
\<close>

lemma publish_commit_return_ok:
  assumes "uow_session w = Some []" and "client_initialized w" and "broker_up w"
  shows "publish_commit_return lib db_now et ev saved w =
    (Inr saved,
     w\<lparr>stream := stream w @ [[(''event_type'', et), (''data'', json_dumps lib (to_dict lib ev))]],
       calls := calls w @ [PublishCall et (to_dict lib ev), CommitCall]\<rparr>)"
  using assms
  by (simp add: publish_commit_return_def publish_def uow_commit_def World.equality)

text \<open>The end of a use case when the publisher raises: nothing but the call is recorded.\<close>

lemma publish_commit_return_fails:
  assumes "client_initialized w" and "\<not> broker_up w"
  shows "publish_commit_return lib db_now et ev saved w =
    (Inl (BrokerError ''xadd''), w\<lparr>calls := calls w @ [PublishCall et (to_dict lib ev)]\<rparr>)"
  using assms
  by (simp add: publish_commit_return_def publish_def)

text \<open>
  The \<open>with\<close> statement around a block, entered with no unit of work active: the block
  runs with an empty session; after a result the unit of work commits once more, after
  an exception it rolls back, and the table is what the block left.
\<close>

lemma with_uow_returns:
  assumes "uow_session w = None"
    and "body (w\<lparr>uow_session := Some []\<rparr>) = (Inr v, w2)" and "uow_session w2 = Some []"
  shows "with_uow db_now body w =
    (Inr v, w2\<lparr>uow_session := None, calls := calls w2 @ [CommitCall]\<rparr>)"
  using assms
  by (simp add: with_uow_def uow_enter_def uow_exit_def uow_commit_def World.equality)

lemma with_uow_raises:
  assumes "uow_session w = None"
    and "body (w\<lparr>uow_session := Some []\<rparr>) = (Inl e, w2)" and "uow_session w2 = Some []"
  shows "with_uow db_now body w =
    (Inl e, w2\<lparr>uow_session := None, calls := calls w2 @ [RollbackCall]\<rparr>)"
  using assms
  by (simp add: with_uow_def uow_enter_def uow_exit_def uow_rollback_def World.equality)

lemma save_refused:
  assumes "get_by_id (id' task) w = None"
    and "pg_insert (to_model task) = Inl e"
  shows "save db_now task w = (Inl e, w\<lparr>calls := calls w @ [SaveCall task]\<rparr>)"
proof -
  from assms(1) have "find (\<lambda>m. m_id m = id' task) (tasks w) = None"
    by (simp add: get_by_id_None)
  then show ?thesis
    using assms(2) by (simp add: save_def)
qed

lemma strip_unchanged:
  assumes "s \<noteq> []" and "\<not> is_space (hd s)" and "\<not> is_space (last s)"
  shows "strip s = s"
proof -
  from assms(1,2) have "dropWhile is_space s = s"
    by (cases s) simp_all
  moreover from assms(1,3) have "dropWhile is_space (rev s) = rev s"
    by (cases "rev s") (simp_all add: last_rev [symmetric] del: last_rev)
  ultimately show ?thesis
    by (simp add: strip_def)
qed

text \<open>
  C5, as amended. \<open>create_task\<close> is called with a title and a description that are not
  blank (not empty once stripped of surrounding whitespace), a priority and an assignee,
  where the database takes the strings as they are (no NUL character in the stripped
  title, the stripped description or the assignee; the stripped title and the assignee
  at most 255 characters long), \<open>uuid4()\<close> gives an identifier not yet in the table, no
  unit of work is active and the publisher works. Then it returns a task with status
  \<open>PENDING\<close>, the given priority and assignee, \<open>created_at\<close> equal to \<open>updated_at\<close>
  and no \<open>completed_at\<close>, and exactly one event is published, of type
  \<open>task.created\<close>, whose payload carries the returned task's id, title, assignee and
  priority. (The returned task has the new identifier and the stripped title and
  description, and it is the stored one.)
\<close>

theorem create_task_spec:
  assumes "strip ttl \<noteq> []" and "strip descr \<noteq> []"
    and "length (strip ttl) \<le> 255" and "CHR 0x00 \<notin> set (strip ttl)"
    and "CHR 0x00 \<notin> set (strip descr)"
    and "case assignee of None \<Rightarrow> True | Some a \<Rightarrow> CHR 0x00 \<notin> set a \<and> length a \<le> 255"
    and "get_by_id new_id w = None"
    and "uow_session w = None" and "client_initialized w" and "broker_up w"
  shows "\<exists>task payload w'.
    create_task lib new_id now db_now ev_id occurred ttl descr prio assignee user_id w =
      (Inr task, w') \<and>
    id' task = new_id \<and> title task = strip ttl \<and> description task = strip descr \<and>
    status task = PENDING \<and> priority task = prio \<and> assigned_to task = assignee \<and>
    created_at task = updated_at task \<and> completed_at task = None \<and>
    get_by_id new_id w' = Some task \<and>
    calls w' = calls w @
      [SaveCall task, PublishCall ''task.created'' payload, CommitCall, CommitCall] \<and>
    stream w' = stream w @
      [[(''event_type'', ''task.created''), (''data'', json_dumps lib payload)]] \<and>
    getitem payload ''event_type'' = Some (JStr ''TaskCreatedEvent'') \<and>
    data_item payload ''task_id'' = Some (JStr (str_uuid lib (id' task))) \<and>
    data_item payload ''title'' = Some (JStr (title task)) \<and>
    data_item payload ''assigned_to'' = Some (opt_str (assigned_to task)) \<and>
    data_item payload ''priority'' = Some (JStr (priority_value (priority task)))"
proof -
  define task where "task = create new_id now (strip ttl) (strip descr) prio assignee"
  define ev where "ev = TaskCreatedEvent ev_id occurred (id' task) (title task)
      (assigned_to task) (priority_value (priority task))"
  define w1 where "w1 = w\<lparr>uow_session := Some []\<rparr>"
  define w2 where "w2 = w1\<lparr>tasks := tasks w1 @ [to_model task], calls := calls w1 @ [SaveCall task]\<rparr>"
  define w3 where "w3 = w2\<lparr>stream := stream w2 @
        [[(''event_type'', ''task.created''), (''data'', json_dumps lib (to_dict lib ev))]],
      calls := calls w2 @ [PublishCall ''task.created'' (to_dict lib ev), CommitCall]\<rparr>"
  define w4 where "w4 = w3\<lparr>uow_session := None, calls := calls w3 @ [CommitCall]\<rparr>"
  have tid: "id' task = new_id"
    by (simp add: task_def create_def)
  have fresh: "get_by_id (id' task) w1 = None"
    using assms(7) by (simp add: tid w1_def get_by_id_def)
  have fits: "pg_insert (to_model task) = Inr (to_model task)"
    using assms(3-6) by (intro pg_insert_fits) (simp_all add: to_model_def task_def create_def)
  have sv: "save db_now task w1 = (Inr task, w2)"
    unfolding w2_def using fresh fits by (rule save_fresh)
  have pc: "publish_commit_return lib db_now ''task.created'' ev task w2 = (Inr task, w3)"
    unfolding w3_def
    by (rule publish_commit_return_ok) (simp_all add: w2_def w1_def assms)
  have body: "(\<lambda>w. let task = create new_id now (strip ttl) (strip descr) prio assignee
             in case save db_now task w of
                  (Inl e, w1) \<Rightarrow> (Inl e, w1)
                | (Inr saved_task, w1) \<Rightarrow>
                    (let event = TaskCreatedEvent ev_id occurred (id' saved_task)
                           (title saved_task) (assigned_to saved_task)
                           (priority_value (priority saved_task))
                     in publish_commit_return lib db_now ''task.created'' event saved_task w1))
        (w\<lparr>uow_session := Some []\<rparr>) = (Inr task, w3)"
    using sv pc by (simp add: task_def [symmetric] w1_def [symmetric] ev_def [symmetric])
  have "uow_session w3 = Some []"
    by (simp add: w3_def w2_def w1_def)
  with assms(8) body have wu: "with_uow db_now (\<lambda>w. let task = create new_id now (strip ttl) (strip descr) prio assignee
             in case save db_now task w of
                  (Inl e, w1) \<Rightarrow> (Inl e, w1)
                | (Inr saved_task, w1) \<Rightarrow>
                    (let event = TaskCreatedEvent ev_id occurred (id' saved_task)
                           (title saved_task) (assigned_to saved_task)
                           (priority_value (priority saved_task))
                     in publish_commit_return lib db_now ''task.created'' event saved_task w1)) w
      = (Inr task, w4)"
    unfolding w4_def by (rule with_uow_returns)
  have res: "create_task lib new_id now db_now ev_id occurred ttl descr prio assignee user_id w =
      (Inr task, w4)"
  proof -
    from assms(1,2) have "ttl \<noteq> []" and "descr \<noteq> []"
      by (auto simp: strip_def)
    with assms(1,2) wu show ?thesis
      by (simp add: create_task_def)
  qed
  have "find (\<lambda>m. m_id m = new_id) (tasks w) = None"
    using assms(7) by (simp add: get_by_id_None)
  moreover have "m_id (to_model task) = new_id"
    by (simp add: to_model_def tid)
  ultimately have stored: "get_by_id new_id w4 = Some task"
    by (simp add: w4_def w3_def w2_def w1_def get_by_id_def find_append_None
        to_domain_to_model)
  have fields: "title task = strip ttl \<and> description task = strip descr \<and>
    status task = PENDING \<and> priority task = prio \<and> assigned_to task = assignee \<and>
    created_at task = updated_at task \<and> completed_at task = None"
    by (simp add: task_def create_def)
  have cs: "calls w4 = calls w @
      [SaveCall task, PublishCall ''task.created'' (to_dict lib ev), CommitCall, CommitCall]"
    by (simp add: w4_def w3_def w2_def w1_def)
  have st: "stream w4 = stream w @
      [[(''event_type'', ''task.created''), (''data'', json_dumps lib (to_dict lib ev))]]"
    by (simp add: w4_def w3_def w2_def w1_def)
  have pl: "getitem (to_dict lib ev) ''event_type'' = Some (JStr ''TaskCreatedEvent'') \<and>
    data_item (to_dict lib ev) ''task_id'' = Some (JStr (str_uuid lib (id' task))) \<and>
    data_item (to_dict lib ev) ''title'' = Some (JStr (title task)) \<and>
    data_item (to_dict lib ev) ''assigned_to'' = Some (opt_str (assigned_to task)) \<and>
    data_item (to_dict lib ev) ''priority'' = Some (JStr (priority_value (priority task)))"
    by (simp add: ev_def to_dict_def getitem_def data_item_def)
  from res tid fields stored cs st pl show ?thesis
    by blast
qed

theorem create_task_spec_witness:
  "\<exists>task payload w'.
     create_task \<lparr>str_uuid = \<lambda>n. replicate n CHR ''u'', isoformat = \<lambda>n. replicate n CHR ''t'', json_dumps = \<lambda>d. ''''\<rparr>
       1 2 3 4 5 ''Buy milk'' ''2% milk, 1 gallon'' HIGH (Some ''alice'') None
       \<lparr>tasks = [], uow_session = None, client_initialized = True, broker_up = True, stream = [], calls = []\<rparr> = (Inr task, w') \<and>
     title task = ''Buy milk'' \<and> status task = PENDING \<and> priority task = HIGH \<and>
     assigned_to task = Some ''alice'' \<and> created_at task = updated_at task \<and>
     completed_at task = None \<and>
     calls w' = [SaveCall task, PublishCall ''task.created'' payload, CommitCall, CommitCall] \<and>
     data_item payload ''title'' = Some (JStr ''Buy milk'') \<and>
     data_item payload ''assigned_to'' = Some (JStr ''alice'') \<and>
     data_item payload ''priority'' = Some (JStr ''high'')"
proof -
  let ?L = "\<lparr>str_uuid = \<lambda>n. replicate n CHR ''u'', isoformat = \<lambda>n. replicate n CHR ''t'', json_dumps = \<lambda>d. ''''\<rparr>"
  let ?W = "\<lparr>tasks = [], uow_session = None, client_initialized = True, broker_up = True, stream = [], calls = []\<rparr>"
  have t: "strip ''Buy milk'' = ''Buy milk''"
    by (simp add: strip_def is_space_def)
  have d: "strip ''2% milk, 1 gallon'' = ''2% milk, 1 gallon''"
    by (simp add: strip_def is_space_def)
  have h1: "strip ''Buy milk'' \<noteq> []" and h2: "strip ''2% milk, 1 gallon'' \<noteq> []"
    and h3: "length (strip ''Buy milk'') \<le> 255" and h4: "CHR 0x00 \<notin> set (strip ''Buy milk'')"
    and h5: "CHR 0x00 \<notin> set (strip ''2% milk, 1 gallon'')"
    by (simp_all add: t d)
  have h6: "case Some ''alice'' of None \<Rightarrow> True
      | Some a \<Rightarrow> CHR 0x00 \<notin> set a \<and> length a \<le> 255"
    by simp
  have h7: "get_by_id 1 ?W = None"
    by (simp add: get_by_id_def)
  have h8: "uow_session ?W = None" and h9: "client_initialized ?W" and h10: "broker_up ?W"
    by simp_all
  from create_task_spec [OF h1 h2 h3 h4 h5 h6 h7 h8 h9 h10, where lib = ?L and now = 2
      and db_now = 3 and ev_id = 4 and occurred = 5 and prio = HIGH and user_id = None]
  obtain task payload w' where
    r: "create_task ?L 1 2 3 4 5 ''Buy milk'' ''2% milk, 1 gallon'' HIGH (Some ''alice'') None ?W =
        (Inr task, w')"
    and f: "title task = strip ''Buy milk''" "status task = PENDING" "priority task = HIGH"
      "assigned_to task = Some ''alice''" "created_at task = updated_at task"
      "completed_at task = None"
    and c: "calls w' = calls ?W @
        [SaveCall task, PublishCall ''task.created'' payload, CommitCall, CommitCall]"
    and p: "data_item payload ''title'' = Some (JStr (title task))"
      "data_item payload ''assigned_to'' = Some (opt_str (assigned_to task))"
      "data_item payload ''priority'' = Some (JStr (priority_value (priority task)))"
    by blast
  from c have c': "calls w' = [SaveCall task, PublishCall ''task.created'' payload, CommitCall, CommitCall]"
    by simp
  from p f t have p': "data_item payload ''title'' = Some (JStr ''Buy milk'')"
    "data_item payload ''assigned_to'' = Some (JStr ''alice'')"
    "data_item payload ''priority'' = Some (JStr ''high'')"
    by simp_all
  from r f t c' p' show ?thesis
    by (intro exI [of _ task] exI [of _ payload] exI [of _ w']) simp
qed

text \<open>
  Three calls with a non-empty title and description that return no task. A title of one
  space is rejected by the guard: the business-rule violation is raised and nothing is
  saved or published. A title of 256 letters passes the guard, but the database refuses
  it for the \<open>String(255)\<close> column: the call raises \<open>DataError\<close>, the table stays
  empty and nothing is published. The same happens for a title with the character NUL.
\<close>

theorem create_task_nonempty_counterexample:
  "'' '' \<noteq> [] \<and> ''2% milk, 1 gallon'' \<noteq> [] \<and>
   create_task \<lparr>str_uuid = \<lambda>n. replicate n CHR ''u'', isoformat = \<lambda>n. replicate n CHR ''t'', json_dumps = \<lambda>d. ''''\<rparr>
     1 2 3 4 5 '' '' ''2% milk, 1 gallon'' HIGH (Some ''alice'') None
     \<lparr>tasks = [], uow_session = None, client_initialized = True, broker_up = True, stream = [], calls = []\<rparr> =
   (Inl (BusinessRuleViolationException ''task_title_required'' ''Task title cannot be empty''),
    \<lparr>tasks = [], uow_session = None, client_initialized = True, broker_up = True, stream = [], calls = []\<rparr>) \<and>
   replicate 256 (CHR ''a'') \<noteq> [] \<and>
   fst (create_task \<lparr>str_uuid = \<lambda>n. replicate n CHR ''u'', isoformat = \<lambda>n. replicate n CHR ''t'', json_dumps = \<lambda>d. ''''\<rparr>
     1 2 3 4 5 (replicate 256 (CHR ''a'')) ''2% milk, 1 gallon'' HIGH (Some ''alice'') None
     \<lparr>tasks = [], uow_session = None, client_initialized = True, broker_up = True, stream = [], calls = []\<rparr>) = Inl DataError \<and>
   tasks (snd (create_task \<lparr>str_uuid = \<lambda>n. replicate n CHR ''u'', isoformat = \<lambda>n. replicate n CHR ''t'', json_dumps = \<lambda>d. ''''\<rparr>
     1 2 3 4 5 (replicate 256 (CHR ''a'')) ''2% milk, 1 gallon'' HIGH (Some ''alice'') None
     \<lparr>tasks = [], uow_session = None, client_initialized = True, broker_up = True, stream = [], calls = []\<rparr>)) = [] \<and>
   stream (snd (create_task \<lparr>str_uuid = \<lambda>n. replicate n CHR ''u'', isoformat = \<lambda>n. replicate n CHR ''t'', json_dumps = \<lambda>d. ''''\<rparr>
     1 2 3 4 5 (replicate 256 (CHR ''a'')) ''2% milk, 1 gallon'' HIGH (Some ''alice'') None
     \<lparr>tasks = [], uow_session = None, client_initialized = True, broker_up = True, stream = [], calls = []\<rparr>)) = [] \<and>
   [CHR ''a'', CHR 0x00] \<noteq> [] \<and>
   fst (create_task \<lparr>str_uuid = \<lambda>n. replicate n CHR ''u'', isoformat = \<lambda>n. replicate n CHR ''t'', json_dumps = \<lambda>d. ''''\<rparr>
     1 2 3 4 5 [CHR ''a'', CHR 0x00] ''2% milk, 1 gallon'' HIGH (Some ''alice'') None
     \<lparr>tasks = [], uow_session = None, client_initialized = True, broker_up = True, stream = [], calls = []\<rparr>) = Inl DataError \<and>
   tasks (snd (create_task \<lparr>str_uuid = \<lambda>n. replicate n CHR ''u'', isoformat = \<lambda>n. replicate n CHR ''t'', json_dumps = \<lambda>d. ''''\<rparr>
     1 2 3 4 5 [CHR ''a'', CHR 0x00] ''2% milk, 1 gallon'' HIGH (Some ''alice'') None
     \<lparr>tasks = [], uow_session = None, client_initialized = True, broker_up = True, stream = [], calls = []\<rparr>)) = [] \<and>
   stream (snd (create_task \<lparr>str_uuid = \<lambda>n. replicate n CHR ''u'', isoformat = \<lambda>n. replicate n CHR ''t'', json_dumps = \<lambda>d. ''''\<rparr>
     1 2 3 4 5 [CHR ''a'', CHR 0x00] ''2% milk, 1 gallon'' HIGH (Some ''alice'') None
     \<lparr>tasks = [], uow_session = None, client_initialized = True, broker_up = True, stream = [], calls = []\<rparr>)) = []"
proof -
  let ?L = "\<lparr>str_uuid = \<lambda>n. replicate n CHR ''u'', isoformat = \<lambda>n. replicate n CHR ''t'', json_dumps = \<lambda>d. ''''\<rparr>"
  let ?W = "\<lparr>tasks = [], uow_session = None, client_initialized = True, broker_up = True, stream = [], calls = []\<rparr>"
  let ?long = "replicate 256 (CHR ''a'')"
  let ?task = "create 1 2 ?long ''2% milk, 1 gallon'' HIGH (Some ''alice'')"
  have blank: "create_task ?L 1 2 3 4 5 '' '' ''2% milk, 1 gallon'' HIGH (Some ''alice'') None ?W =
      (Inl (BusinessRuleViolationException ''task_title_required''
         ''Task title cannot be empty''), ?W)"
    by (simp add: create_task_def strip_def is_space_def)
  have ne: "?long \<noteq> []"
    by simp
  have sl: "strip ?long = ?long"
    by (rule strip_unchanged) (simp_all add: is_space_def)
  have sd: "strip ''2% milk, 1 gallon'' = ''2% milk, 1 gallon''"
    by (simp add: strip_def is_space_def)
  have "pg_varchar 255 ?long = Inl DataError"
    by (simp add: pg_varchar_def list_all_iff)
  then have refused: "pg_insert (to_model ?task) = Inl DataError"
    by (simp add: pg_insert_def to_model_def create_def)
  have "get_by_id (id' ?task) (?W\<lparr>uow_session := Some []\<rparr>) = None"
    by (simp add: get_by_id_def)
  from save_refused [OF this refused, of 3]
  have sv: "save 3 ?task (?W\<lparr>uow_session := Some []\<rparr>) =
      (Inl DataError, ?W\<lparr>uow_session := Some [], calls := [SaveCall ?task]\<rparr>)"
    by simp
  have long: "create_task ?L 1 2 3 4 5 ?long ''2% milk, 1 gallon'' HIGH (Some ''alice'') None ?W =
      (Inl DataError, ?W\<lparr>calls := [SaveCall ?task, RollbackCall]\<rparr>)"
    using ne sv
    by (simp add: create_task_def sl sd with_uow_def uow_enter_def uow_exit_def
        uow_rollback_def)
  have nul: "create_task ?L 1 2 3 4 5 [CHR ''a'', CHR 0x00] ''2% milk, 1 gallon'' HIGH
        (Some ''alice'') None ?W =
      (Inl DataError,
       ?W\<lparr>calls := [SaveCall (create 1 2 [CHR ''a'', CHR 0x00] ''2% milk, 1 gallon'' HIGH
          (Some ''alice'')), RollbackCall]\<rparr>)"
    by (simp add: create_task_def sd strip_def is_space_def with_uow_def uow_enter_def
        uow_exit_def uow_rollback_def save_def to_model_def create_def pg_insert_def
        pg_varchar_def)
  show ?thesis
    using ne by (simp only: blank long nul) simp
qed

text \<open>
  C6. For every task id, \<open>assign_task\<close> with an assignee that is empty or consists of
  whitespace only raises the business-rule violation and changes nothing: no call of
  \<open>save\<close> or \<open>publish\<close> is recorded, the table and the stream are as before.
\<close>

theorem assign_task_blank:
  assumes "assignee = [] \<or> (\<forall>c\<in>set assignee. is_space c)"
  shows "assign_task lib now db_now ev_id occurred task_id assignee user_id w =
      (Inl (BusinessRuleViolationException ''assignee_required'' ''Assignee cannot be empty''), w) \<and>
    calls (snd (assign_task lib now db_now ev_id occurred task_id assignee user_id w)) = calls w \<and>
    tasks (snd (assign_task lib now db_now ev_id occurred task_id assignee user_id w)) = tasks w \<and>
    stream (snd (assign_task lib now db_now ev_id occurred task_id assignee user_id w)) = stream w"
proof -
  from assms have "strip assignee = []"
    by (auto simp: strip_Nil_iff)
  then show ?thesis
    by (simp add: assign_task_def)
qed

theorem assign_task_blank_witness:
  "assign_task \<lparr>str_uuid = \<lambda>n. replicate n CHR ''u'', isoformat = \<lambda>n. replicate n CHR ''t'', json_dumps = \<lambda>d. ''''\<rparr> 2 3 4 5 1 [] None \<lparr>tasks = [], uow_session = None, client_initialized = True, broker_up = True, stream = [], calls = []\<rparr> =
     (Inl (BusinessRuleViolationException ''assignee_required'' ''Assignee cannot be empty''),
      \<lparr>tasks = [], uow_session = None, client_initialized = True, broker_up = True, stream = [], calls = []\<rparr>) \<and>
   assign_task \<lparr>str_uuid = \<lambda>n. replicate n CHR ''u'', isoformat = \<lambda>n. replicate n CHR ''t'', json_dumps = \<lambda>d. ''''\<rparr> 2 3 4 5 1 ''  '' None \<lparr>tasks = [], uow_session = None, client_initialized = True, broker_up = True, stream = [], calls = []\<rparr> =
     (Inl (BusinessRuleViolationException ''assignee_required'' ''Assignee cannot be empty''),
      \<lparr>tasks = [], uow_session = None, client_initialized = True, broker_up = True, stream = [], calls = []\<rparr>)"
proof -
  have a: "([]::string) = [] \<or> (\<forall>c\<in>set ([]::string). is_space c)"
    by simp
  have b: "''  '' = [] \<or> (\<forall>c\<in>set ''  ''. is_space c)"
    by (simp add: is_space_def)
  show ?thesis
    by (rule conjI; rule assign_task_blank [THEN conjunct1]) (rule a, rule b)
qed

section \<open>Assignment: the stored assignee and the published one\<close>

lemma get_by_id_Some:
  assumes "get_by_id i w = Some t"
  shows "\<exists>ex. find (\<lambda>m. m_id m = i) (tasks w) = Some ex \<and> to_domain ex = t \<and> id' t = i"
proof -
  from assms obtain ex where f: "find (\<lambda>m. m_id m = i) (tasks w) = Some ex" and t: "to_domain ex = t"
    by (auto simp: get_by_id_def split: option.splits)
  from f have "m_id ex = i"
    by (rule find_Some_id)
  with t have "id' t = i"
    by (auto simp: to_domain_def)
  with f t show ?thesis
    by blast
qed

text \<open>
  C10, as amended. For an existing task and an assignee with whitespace before or after
  text that is not blank, has no NUL character and is at most 255 characters long,
  \<open>assign_task\<close> (no unit of work active, publisher working) stores and returns the
  task with the stripped assignee, while the payload of the one \<open>task.assigned\<close>
  event it publishes carries the assignee as given: the event and the stored task
  differ in \<open>assigned_to\<close>.
\<close>

theorem assign_task_untrimmed_event:
  assumes "get_by_id task_id w = Some t"
    and "strip assignee \<noteq> []" and "strip assignee \<noteq> assignee"
    and "length (strip assignee) \<le> 255" and "CHR 0x00 \<notin> set (strip assignee)"
    and "uow_session w = None" and "client_initialized w" and "broker_up w"
  shows "\<exists>saved payload w'.
    assign_task lib now db_now ev_id occurred task_id assignee user_id w = (Inr saved, w') \<and>
    id' saved = task_id \<and>
    assigned_to saved = Some (strip assignee) \<and>
    get_by_id task_id w' = Some saved \<and>
    calls w' = calls w @
      [SaveCall (assign_to now (strip assignee) t), PublishCall ''task.assigned'' payload,
       CommitCall, CommitCall] \<and>
    getitem payload ''event_type'' = Some (JStr ''TaskAssignedEvent'') \<and>
    data_item payload ''assigned_to'' = Some (JStr assignee) \<and>
    data_item payload ''assigned_to'' \<noteq> Some (opt_str (assigned_to saved))"
proof -
  define task where "task = assign_to now (strip assignee) t"
  define ev where "ev = TaskAssignedEvent ev_id occurred task_id assignee user_id"
  define w1 where "w1 = w\<lparr>uow_session := Some []\<rparr>"
  from get_by_id_Some [OF assms(1)] obtain ex where
    ex: "find (\<lambda>m. m_id m = task_id) (tasks w) = Some ex" and t: "to_domain ex = t"
    and tid: "id' t = task_id"
    by blast
  have tid': "id' task = task_id"
    by (simp add: task_def assign_to_def tid)
  have gt: "get_task task_id w1 = Inr t"
    using assms(1) by (simp add: get_task_def get_by_id_def w1_def)
  have f1: "find (\<lambda>m. m_id m = id' task) (tasks w1) = Some ex"
    using ex by (simp add: tid' w1_def)
  have same: "title task = m_title ex" "description task = m_description ex"
    "assigned_to task = Some (strip assignee)"
    using t by (auto simp: task_def assign_to_def to_domain_def)
  have "pg_opt_varchar 255 (Some (strip assignee)) = Inr (Some (strip assignee))"
    using assms(4,5) by (intro pg_opt_varchar_fits) simp
  then have upd: "pg_update ex (ex\<lparr>m_title := title task, m_description := description task,
      m_status := status task, m_priority := priority task,
      m_assigned_to := assigned_to task, m_updated_at := updated_at task,
      m_completed_at := completed_at task\<rparr>) =
      Inr (ex\<lparr>m_title := title task, m_description := description task,
      m_status := status task, m_priority := priority task,
      m_assigned_to := assigned_to task, m_updated_at := updated_at task,
      m_completed_at := completed_at task\<rparr>)"
    by (simp add: pg_update_def changed_col_def same)
  from save_existing [OF f1 upd, of db_now] obtain row tbl where
    sv: "save db_now task w1 =
      (Inr (to_domain row), w1\<lparr>tasks := tbl, calls := calls w1 @ [SaveCall task]\<rparr>)"
    and found: "find (\<lambda>m. m_id m = id' task) tbl = Some row"
    and cols: "m_id row = id' task" "m_assigned_to row = assigned_to task"
    by blast
  define saved where "saved = to_domain row"
  define w2 where "w2 = w1\<lparr>tasks := tbl, calls := calls w1 @ [SaveCall task]\<rparr>"
  define w3 where "w3 = w2\<lparr>stream := stream w2 @
        [[(''event_type'', ''task.assigned''), (''data'', json_dumps lib (to_dict lib ev))]],
      calls := calls w2 @ [PublishCall ''task.assigned'' (to_dict lib ev), CommitCall]\<rparr>"
  define w4 where "w4 = w3\<lparr>uow_session := None, calls := calls w3 @ [CommitCall]\<rparr>"
  have pc: "publish_commit_return lib db_now ''task.assigned'' ev saved w2 = (Inr saved, w3)"
    unfolding w3_def
    by (rule publish_commit_return_ok) (simp_all add: w2_def w1_def assms)
  have body: "(\<lambda>w. case get_task task_id w of
               Inl e \<Rightarrow> (Inl e, w)
             | Inr task \<Rightarrow>
                 (let task' = assign_to now (strip assignee) task
                  in case save db_now task' w of
                       (Inl e, w1) \<Rightarrow> (Inl e, w1)
                     | (Inr saved_task, w1) \<Rightarrow>
                         (let event = TaskAssignedEvent ev_id occurred task_id assignee user_id
                          in publish_commit_return lib db_now ''task.assigned'' event
                               saved_task w1)))
        (w\<lparr>uow_session := Some []\<rparr>) = (Inr saved, w3)"
    using gt sv pc
    by (simp add: w1_def [symmetric] task_def [symmetric] ev_def [symmetric]
        saved_def [symmetric] w2_def [symmetric])
  have "uow_session w3 = Some []"
    by (simp add: w3_def w2_def w1_def)
  with assms(6) body have "with_uow db_now (\<lambda>w. case get_task task_id w of
               Inl e \<Rightarrow> (Inl e, w)
             | Inr task \<Rightarrow>
                 (let task' = assign_to now (strip assignee) task
                  in case save db_now task' w of
                       (Inl e, w1) \<Rightarrow> (Inl e, w1)
                     | (Inr saved_task, w1) \<Rightarrow>
                         (let event = TaskAssignedEvent ev_id occurred task_id assignee user_id
                          in publish_commit_return lib db_now ''task.assigned'' event
                               saved_task w1))) w
      = (Inr saved, w4)"
    unfolding w4_def by (rule with_uow_returns)
  moreover from assms(2) have "assignee \<noteq> []"
    by (auto simp: strip_def)
  ultimately have res: "assign_task lib now db_now ev_id occurred task_id assignee user_id w =
      (Inr saved, w4)"
    using assms(2) by (simp add: assign_task_def)
  have sid: "id' saved = task_id"
    using cols(1) by (simp add: saved_def to_domain_def tid')
  have asg: "assigned_to saved = Some (strip assignee)"
    using cols(2) by (simp add: saved_def to_domain_def task_def assign_to_def)
  have stored: "get_by_id task_id w4 = Some saved"
    using found by (simp add: get_by_id_def w4_def w3_def w2_def tid' saved_def)
  have cs: "calls w4 = calls w @
      [SaveCall task, PublishCall ''task.assigned'' (to_dict lib ev), CommitCall, CommitCall]"
    by (simp add: w4_def w3_def w2_def w1_def)
  have pl: "getitem (to_dict lib ev) ''event_type'' = Some (JStr ''TaskAssignedEvent'') \<and>
    data_item (to_dict lib ev) ''assigned_to'' = Some (JStr assignee)"
    by (simp add: ev_def to_dict_def getitem_def data_item_def)
  have diff: "data_item (to_dict lib ev) ''assigned_to'' \<noteq> Some (opt_str (assigned_to saved))"
    using pl asg assms(3) by auto
  from res sid asg stored cs pl diff show ?thesis
    unfolding task_def by blast
qed

theorem assign_task_untrimmed_event_witness:
  "\<exists>saved payload w'.
     assign_task \<lparr>str_uuid = \<lambda>n. replicate n CHR ''u'', isoformat = \<lambda>n. replicate n CHR ''t'', json_dumps = \<lambda>d. ''''\<rparr> 10 11 12 13 1 '' bob '' None
       \<lparr>tasks = [\<lparr>m_id = 1, m_title = ''Buy milk'', m_description = ''2% milk'',
            m_status = PENDING, m_priority = HIGH, m_assigned_to = Some ''alice'',
            m_created_at = 2, m_updated_at = 2, m_completed_at = None\<rparr>],
        uow_session = None, client_initialized = True, broker_up = True, stream = [],
        calls = []\<rparr> = (Inr saved, w') \<and>
     assigned_to saved = Some ''bob'' \<and>
     get_by_id 1 w' = Some saved \<and>
     data_item payload ''assigned_to'' = Some (JStr '' bob '') \<and>
     PublishCall ''task.assigned'' payload \<in> set (calls w')"
proof -
  let ?W = "\<lparr>tasks = [\<lparr>m_id = 1, m_title = ''Buy milk'', m_description = ''2% milk'',
            m_status = PENDING, m_priority = HIGH, m_assigned_to = Some ''alice'',
            m_created_at = 2, m_updated_at = 2, m_completed_at = None\<rparr>],
        uow_session = None, client_initialized = True, broker_up = True, stream = [],
        calls = []\<rparr>"
  let ?t = "\<lparr>id' = 1, title = ''Buy milk'', description = ''2% milk'', status = PENDING,
      priority = HIGH, created_at = 2, updated_at = 2, completed_at = None,
      assigned_to = Some ''alice''\<rparr>"
  have s: "strip '' bob '' = ''bob''"
    by (simp add: strip_def is_space_def)
  have h1: "get_by_id 1 ?W = Some ?t"
    by (simp add: get_by_id_def to_domain_def)
  have h2: "strip '' bob '' \<noteq> []" and h3: "strip '' bob '' \<noteq> '' bob ''"
    and h4: "length (strip '' bob '') \<le> 255" and h5: "CHR 0x00 \<notin> set (strip '' bob '')"
    by (simp_all add: s)
  have h6: "uow_session ?W = None" and h7: "client_initialized ?W" and h8: "broker_up ?W"
    by simp_all
  from assign_task_untrimmed_event [OF h1 h2 h3 h4 h5 h6 h7 h8, where lib = "\<lparr>str_uuid = \<lambda>n. replicate n CHR ''u'', isoformat = \<lambda>n. replicate n CHR ''t'', json_dumps = \<lambda>d. ''''\<rparr>"
      and now = 10 and db_now = 11 and ev_id = 12 and occurred = 13 and user_id = None]
  obtain saved payload w' where
    r: "assign_task \<lparr>str_uuid = \<lambda>n. replicate n CHR ''u'', isoformat = \<lambda>n. replicate n CHR ''t'', json_dumps = \<lambda>d. ''''\<rparr> 10 11 12 13 1 '' bob '' None ?W = (Inr saved, w')"
    and a: "assigned_to saved = Some (strip '' bob '')"
    and g: "get_by_id 1 w' = Some saved"
    and c: "calls w' = calls ?W @
      [SaveCall (assign_to 10 (strip '' bob '') ?t), PublishCall ''task.assigned'' payload,
       CommitCall, CommitCall]"
    and p: "data_item payload ''assigned_to'' = Some (JStr '' bob '')"
    by blast
  from c have "PublishCall ''task.assigned'' payload \<in> set (calls w')"
    by simp
  with r a g p s show ?thesis
    by (intro exI [of _ saved] exI [of _ payload] exI [of _ w']) simp
qed

text \<open>
  An assignee of one space followed by 256 letters has leading whitespace around text
  that is not empty, and the task exists. The stripped assignee is too long for the
  \<open>String(255)\<close> column: \<open>assign_task\<close> raises \<open>DataError\<close>, the stored task keeps
  its assignee and nothing is published. The same happens for an assignee of a space, a
  letter and the character NUL.
\<close>

theorem assign_task_long_counterexample:
  "strip (CHR '' '' # replicate 256 (CHR ''a'')) = replicate 256 (CHR ''a'') \<and>
   replicate 256 (CHR ''a'') \<noteq> [] \<and>
   replicate 256 (CHR ''a'') \<noteq> CHR '' '' # replicate 256 (CHR ''a'') \<and>
   fst (assign_task \<lparr>str_uuid = \<lambda>n. replicate n CHR ''u'', isoformat = \<lambda>n. replicate n CHR ''t'', json_dumps = \<lambda>d. ''''\<rparr> 10 11 12 13 1 (CHR '' '' # replicate 256 (CHR ''a'')) None
       \<lparr>tasks = [\<lparr>m_id = 1, m_title = ''Buy milk'', m_description = ''2% milk'',
            m_status = PENDING, m_priority = HIGH, m_assigned_to = Some ''alice'',
            m_created_at = 2, m_updated_at = 2, m_completed_at = None\<rparr>],
        uow_session = None, client_initialized = True, broker_up = True, stream = [],
        calls = []\<rparr>) = Inl DataError \<and>
   map_option assigned_to (get_by_id 1 (snd (assign_task \<lparr>str_uuid = \<lambda>n. replicate n CHR ''u'', isoformat = \<lambda>n. replicate n CHR ''t'', json_dumps = \<lambda>d. ''''\<rparr> 10 11 12 13 1
       (CHR '' '' # replicate 256 (CHR ''a'')) None
       \<lparr>tasks = [\<lparr>m_id = 1, m_title = ''Buy milk'', m_description = ''2% milk'',
            m_status = PENDING, m_priority = HIGH, m_assigned_to = Some ''alice'',
            m_created_at = 2, m_updated_at = 2, m_completed_at = None\<rparr>],
        uow_session = None, client_initialized = True, broker_up = True, stream = [],
        calls = []\<rparr>))) = Some (Some ''alice'') \<and>
   stream (snd (assign_task \<lparr>str_uuid = \<lambda>n. replicate n CHR ''u'', isoformat = \<lambda>n. replicate n CHR ''t'', json_dumps = \<lambda>d. ''''\<rparr> 10 11 12 13 1 (CHR '' '' # replicate 256 (CHR ''a'')) None
       \<lparr>tasks = [\<lparr>m_id = 1, m_title = ''Buy milk'', m_description = ''2% milk'',
            m_status = PENDING, m_priority = HIGH, m_assigned_to = Some ''alice'',
            m_created_at = 2, m_updated_at = 2, m_completed_at = None\<rparr>],
        uow_session = None, client_initialized = True, broker_up = True, stream = [],
        calls = []\<rparr>)) = [] \<and>
   strip [CHR '' '', CHR ''a'', CHR 0x00] = [CHR ''a'', CHR 0x00] \<and>
   fst (assign_task \<lparr>str_uuid = \<lambda>n. replicate n CHR ''u'', isoformat = \<lambda>n. replicate n CHR ''t'', json_dumps = \<lambda>d. ''''\<rparr> 10 11 12 13 1 [CHR '' '', CHR ''a'', CHR 0x00] None
       \<lparr>tasks = [\<lparr>m_id = 1, m_title = ''Buy milk'', m_description = ''2% milk'',
            m_status = PENDING, m_priority = HIGH, m_assigned_to = Some ''alice'',
            m_created_at = 2, m_updated_at = 2, m_completed_at = None\<rparr>],
        uow_session = None, client_initialized = True, broker_up = True, stream = [],
        calls = []\<rparr>) = Inl DataError \<and>
   map_option assigned_to (get_by_id 1 (snd (assign_task \<lparr>str_uuid = \<lambda>n. replicate n CHR ''u'', isoformat = \<lambda>n. replicate n CHR ''t'', json_dumps = \<lambda>d. ''''\<rparr> 10 11 12 13 1
       [CHR '' '', CHR ''a'', CHR 0x00] None
       \<lparr>tasks = [\<lparr>m_id = 1, m_title = ''Buy milk'', m_description = ''2% milk'',
            m_status = PENDING, m_priority = HIGH, m_assigned_to = Some ''alice'',
            m_created_at = 2, m_updated_at = 2, m_completed_at = None\<rparr>],
        uow_session = None, client_initialized = True, broker_up = True, stream = [],
        calls = []\<rparr>))) = Some (Some ''alice'') \<and>
   stream (snd (assign_task \<lparr>str_uuid = \<lambda>n. replicate n CHR ''u'', isoformat = \<lambda>n. replicate n CHR ''t'', json_dumps = \<lambda>d. ''''\<rparr> 10 11 12 13 1 [CHR '' '', CHR ''a'', CHR 0x00] None
       \<lparr>tasks = [\<lparr>m_id = 1, m_title = ''Buy milk'', m_description = ''2% milk'',
            m_status = PENDING, m_priority = HIGH, m_assigned_to = Some ''alice'',
            m_created_at = 2, m_updated_at = 2, m_completed_at = None\<rparr>],
        uow_session = None, client_initialized = True, broker_up = True, stream = [],
        calls = []\<rparr>)) = []"
proof -
  let ?row = "\<lparr>m_id = 1, m_title = ''Buy milk'', m_description = ''2% milk'',
            m_status = PENDING, m_priority = HIGH, m_assigned_to = Some ''alice'',
            m_created_at = 2, m_updated_at = 2, m_completed_at = None\<rparr>"
  let ?W = "\<lparr>tasks = [?row],
        uow_session = None, client_initialized = True, broker_up = True, stream = [],
        calls = []\<rparr>"
  let ?long = "replicate 256 (CHR ''a'')"
  let ?task = "assign_to 10 ?long (to_domain ?row)"
  have ne: "?long \<noteq> []"
    by simp
  have "strip ?long = ?long"
    by (rule strip_unchanged) (simp_all add: is_space_def)
  then have sl: "strip (CHR '' '' # ?long) = ?long"
    by (simp add: strip_def is_space_def)
  have differ: "?long \<noteq> CHR '' '' # ?long"
    by (auto dest: arg_cong [where f = length])
  have other: "?long \<noteq> ''alice''"
    by (auto dest: arg_cong [where f = length])
  have "pg_varchar 255 ?long = Inl DataError"
    by (simp add: pg_varchar_def list_all_iff)
  then have "session_commit 11
      [Modify (?row\<lparr>m_title := title ?task, m_description := description ?task,
                  m_status := status ?task, m_priority := priority ?task,
                  m_assigned_to := assigned_to ?task, m_updated_at := updated_at ?task,
                  m_completed_at := completed_at ?task\<rparr>)] [?row] = Inl DataError"
    using other
    by (simp add: assign_to_def to_domain_def pg_update_def changed_col_def pg_opt_varchar_def)
  then have sv: "save 11 ?task (?W\<lparr>uow_session := Some []\<rparr>) =
      (Inl DataError, ?W\<lparr>uow_session := Some [], calls := [SaveCall ?task]\<rparr>)"
    by (simp add: save_def assign_to_def to_domain_def del: session_commit.simps)
  have res: "assign_task \<lparr>str_uuid = \<lambda>n. replicate n CHR ''u'', isoformat = \<lambda>n. replicate n CHR ''t'', json_dumps = \<lambda>d. ''''\<rparr> 10 11 12 13 1 (CHR '' '' # ?long) None ?W =
      (Inl DataError, ?W\<lparr>calls := [SaveCall ?task, RollbackCall]\<rparr>)"
    using ne sv
    by (simp add: assign_task_def sl get_task_def get_by_id_def with_uow_def uow_enter_def
        uow_exit_def uow_rollback_def)
  have sn: "strip [CHR '' '', CHR ''a'', CHR 0x00] = [CHR ''a'', CHR 0x00]"
    by (simp add: strip_def is_space_def)
  have nul: "assign_task \<lparr>str_uuid = \<lambda>n. replicate n CHR ''u'', isoformat = \<lambda>n. replicate n CHR ''t'', json_dumps = \<lambda>d. ''''\<rparr> 10 11 12 13 1 [CHR '' '', CHR ''a'', CHR 0x00] None ?W =
      (Inl DataError,
       ?W\<lparr>calls := [SaveCall (assign_to 10 [CHR ''a'', CHR 0x00] (to_domain ?row)),
          RollbackCall]\<rparr>)"
    by (simp add: assign_task_def sn get_task_def get_by_id_def with_uow_def uow_enter_def
        uow_exit_def uow_rollback_def save_def assign_to_def to_domain_def pg_update_def
        changed_col_def pg_opt_varchar_def pg_varchar_def)
  show ?thesis
    using ne differ by (simp only: sl res sn nul) (simp add: get_by_id_def to_domain_def)
qed

section \<open>A publisher that raises\<close>

text \<open>
  C1 at a concrete input. The broker is down, so \<open>publish\<close> raises. \<open>create_task\<close>
  passes the exception on to its caller and the unit of work rolls back (the last
  recorded call), but the repository's \<open>save\<close> has committed its own session before:
  the new task is in the table afterwards. Likewise \<open>start_task\<close> on a stored pending
  task: the caller gets the exception, the unit of work rolls back, and the stored task
  is in progress.
\<close>

theorem publish_failure_persists:
  "fst (create_task \<lparr>str_uuid = \<lambda>n. replicate n CHR ''u'', isoformat = \<lambda>n. replicate n CHR ''t'', json_dumps = \<lambda>d. ''''\<rparr> 1 2 3 4 5 ''Buy milk'' ''2% milk'' HIGH (Some ''alice'') None
          \<lparr>tasks = [], uow_session = None, client_initialized = True, broker_up = False,
           stream = [], calls = []\<rparr>) = Inl (BrokerError ''xadd'') \<and>
   last (calls (snd (create_task \<lparr>str_uuid = \<lambda>n. replicate n CHR ''u'', isoformat = \<lambda>n. replicate n CHR ''t'', json_dumps = \<lambda>d. ''''\<rparr> 1 2 3 4 5 ''Buy milk'' ''2% milk'' HIGH (Some ''alice'') None
          \<lparr>tasks = [], uow_session = None, client_initialized = True, broker_up = False,
           stream = [], calls = []\<rparr>))) = RollbackCall \<and>
   get_by_id 1 (snd (create_task \<lparr>str_uuid = \<lambda>n. replicate n CHR ''u'', isoformat = \<lambda>n. replicate n CHR ''t'', json_dumps = \<lambda>d. ''''\<rparr> 1 2 3 4 5 ''Buy milk'' ''2% milk'' HIGH (Some ''alice'') None
          \<lparr>tasks = [], uow_session = None, client_initialized = True, broker_up = False,
           stream = [], calls = []\<rparr>)) =
     Some \<lparr>id' = 1, title = ''Buy milk'', description = ''2% milk'', status = PENDING,
           priority = HIGH, created_at = 2, updated_at = 2, completed_at = None,
           assigned_to = Some ''alice''\<rparr> \<and>
   fst (start_task \<lparr>str_uuid = \<lambda>n. replicate n CHR ''u'', isoformat = \<lambda>n. replicate n CHR ''t'', json_dumps = \<lambda>d. ''''\<rparr> 10 11 12 13 1 None
          \<lparr>tasks = [\<lparr>m_id = 1, m_title = ''Buy milk'', m_description = ''2% milk'',
              m_status = PENDING, m_priority = HIGH, m_assigned_to = Some ''alice'',
              m_created_at = 2, m_updated_at = 2, m_completed_at = None\<rparr>],
           uow_session = None, client_initialized = True, broker_up = False,
           stream = [], calls = []\<rparr>) = Inl (BrokerError ''xadd'') \<and>
   last (calls (snd (start_task \<lparr>str_uuid = \<lambda>n. replicate n CHR ''u'', isoformat = \<lambda>n. replicate n CHR ''t'', json_dumps = \<lambda>d. ''''\<rparr> 10 11 12 13 1 None
          \<lparr>tasks = [\<lparr>m_id = 1, m_title = ''Buy milk'', m_description = ''2% milk'',
              m_status = PENDING, m_priority = HIGH, m_assigned_to = Some ''alice'',
              m_created_at = 2, m_updated_at = 2, m_completed_at = None\<rparr>],
           uow_session = None, client_initialized = True, broker_up = False,
           stream = [], calls = []\<rparr>))) = RollbackCall \<and>
   map_option status (get_by_id 1 (snd (start_task \<lparr>str_uuid = \<lambda>n. replicate n CHR ''u'', isoformat = \<lambda>n. replicate n CHR ''t'', json_dumps = \<lambda>d. ''''\<rparr> 10 11 12 13 1 None
          \<lparr>tasks = [\<lparr>m_id = 1, m_title = ''Buy milk'', m_description = ''2% milk'',
              m_status = PENDING, m_priority = HIGH, m_assigned_to = Some ''alice'',
              m_created_at = 2, m_updated_at = 2, m_completed_at = None\<rparr>],
           uow_session = None, client_initialized = True, broker_up = False,
           stream = [], calls = []\<rparr>))) = Some IN_PROGRESS"
  by (simp add: create_task_def start_task_def with_uow_def uow_enter_def uow_exit_def
      uow_rollback_def save_def refresh_def to_model_def to_domain_def pg_insert_def
      pg_update_def changed_col_def pg_varchar_def pg_text_def pg_opt_varchar_def
      publish_commit_return_def publish_def get_by_id_def get_task_def create_def start_def
      strip_def is_space_def)

section \<open>Statistics\<close>

text \<open>The tally of the priority loop, from any starting dictionary.\<close>

lemma priority_step_apply:
  "priority_step t d k =
     (if k = priority_value (priority t)
      then Some ((case d k of None \<Rightarrow> 0 | Some c \<Rightarrow> c) + 1) else d k)"
  by (simp add: priority_step_def)

lemma fold_priority_step:
  "fold priority_step ts d k =
     (let n = length (filter (\<lambda>t. priority_value (priority t) = k) ts) in
      case d k of None \<Rightarrow> (if n = 0 then None else Some n) | Some c \<Rightarrow> Some (c + n))"
proof (induction ts arbitrary: d)
  case Nil
  show ?case by (simp split: option.splits)
next
  case (Cons t ts)
  have "fold priority_step (t # ts) d k = fold priority_step ts (priority_step t d) k"
    by simp
  also have "\<dots> = (let n = length (filter (\<lambda>t. priority_value (priority t) = k) ts) in
      case priority_step t d k of None \<Rightarrow> (if n = 0 then None else Some n)
      | Some c \<Rightarrow> Some (c + n))"
    by (rule Cons.IH)
  also have "\<dots> = (let n = length (filter (\<lambda>t. priority_value (priority t) = k) (t # ts)) in
      case d k of None \<Rightarrow> (if n = 0 then None else Some n) | Some c \<Rightarrow> Some (c + n))"
    by (simp add: priority_step_apply Let_def split: option.splits)
  finally show ?case .
qed

lemma priority_value_eq: "priority_value p = priority_value q \<longleftrightarrow> p = q"
  by (cases p; cases q) simp_all

lemma tally_priority:
  "fold priority_step ts Map.empty (priority_value p) =
     (let n = length (filter (\<lambda>t. priority t = p) ts) in if n = 0 then None else Some n)"
  by (simp add: fold_priority_step priority_value_eq)

lemma tally_other:
  assumes "\<forall>p. k \<noteq> priority_value p"
  shows "fold priority_step ts Map.empty k = None"
proof -
  have "filter (\<lambda>t. priority_value (priority t) = k) ts = []"
    using assms by (auto simp: filter_empty_conv)
  then show ?thesis
    by (simp add: fold_priority_step)
qed

lemma length_get_all: "length (get_all st asg pr limit offset w) \<le> limit"
  by (simp add: get_all_def)

text \<open>Fetching with a limit the table does not reach loses no row, whatever the order.\<close>

lemma count_get_all:
  assumes "length (tasks w) \<le> limit"
  shows "length (filter (\<lambda>t. priority t = p) (get_all None None None limit 0 w)) =
    length (filter (\<lambda>m. m_priority m = p) (tasks w))"
proof -
  have all: "filter (matches None None None) (tasks w) = tasks w"
    by (simp add: matches_def)
  have "length (rev (sort_key m_created_at (tasks w))) \<le> limit"
    using assms by simp
  then have "get_all None None None limit 0 w =
      map to_domain (rev (sort_key m_created_at (tasks w)))"
    by (simp add: get_all_def all)
  moreover have "(\<lambda>t. priority t = p) \<circ> to_domain = (\<lambda>m. m_priority m = p)"
    by (auto simp: to_domain_def)
  ultimately have "length (filter (\<lambda>t. priority t = p) (get_all None None None limit 0 w)) =
      length (filter (\<lambda>m. m_priority m = p) (rev (sort_key m_created_at (tasks w))))"
    by (simp add: filter_map)
  also have "\<dots> = length (filter (\<lambda>m. m_priority m = p) (tasks w))"
    by (simp add: filter_sort flip: rev_filter)
  finally show ?thesis .
qed

lemma length_by_status:
  "length xs = length (filter (\<lambda>m. m_status m = PENDING) xs) +
     length (filter (\<lambda>m. m_status m = IN_PROGRESS) xs) +
     length (filter (\<lambda>m. m_status m = COMPLETED) xs) +
     length (filter (\<lambda>m. m_status m = CANCELLED) xs)"
proof (induction xs)
  case Nil
  show ?case by simp
next
  case (Cons m xs)
  then show ?case by (cases "m_status m") simp_all
qed

lemma length_by_priority:
  "length xs = length (filter (\<lambda>m. m_priority m = LOW) xs) +
     length (filter (\<lambda>m. m_priority m = MEDIUM) xs) +
     length (filter (\<lambda>m. m_priority m = HIGH) xs) +
     length (filter (\<lambda>m. m_priority m = CRITICAL) xs)"
proof (induction xs)
  case Nil
  show ?case by simp
next
  case (Cons m xs)
  then show ?case by (cases "m_priority m") simp_all
qed

text \<open>
  C7. Over a store of five tasks, three pending, one completed and one cancelled, four
  of priority medium and one high, \<open>get_task_statistics\<close> without an assignee returns
  total 5, \<open>by_status\<close> with exactly the entries pending 3, completed 1 and cancelled 1
  (no entry for a status without tasks), and \<open>by_priority\<close> with exactly medium 4 and
  high 1. In every store and for every assignee filter, \<open>by_priority\<close> is the tally
  over the tasks fetched with limit 1000, which are at most 1000: each priority maps to
  the number of fetched tasks that have it, and has no entry when that number is zero.
\<close>

theorem statistics_example:
  assumes "length (tasks w) = 5"
    and "length (filter (\<lambda>m. m_status m = PENDING) (tasks w)) = 3"
    and "length (filter (\<lambda>m. m_status m = COMPLETED) (tasks w)) = 1"
    and "length (filter (\<lambda>m. m_status m = CANCELLED) (tasks w)) = 1"
    and "length (filter (\<lambda>m. m_priority m = MEDIUM) (tasks w)) = 4"
    and "length (filter (\<lambda>m. m_priority m = HIGH) (tasks w)) = 1"
  shows "get_task_statistics None w =
      \<lparr>total = 5,
       by_status = [''pending'' \<mapsto> 3, ''completed'' \<mapsto> 1, ''cancelled'' \<mapsto> 1],
       by_priority = [''medium'' \<mapsto> 4, ''high'' \<mapsto> 1]\<rparr> \<and>
    by_status (get_task_statistics None w) ''in_progress'' = None \<and>
    length (get_all None asg None 1000 0 w') \<le> 1000 \<and>
    by_priority (get_task_statistics asg w') =
      fold priority_step (get_all None asg None 1000 0 w') Map.empty \<and>
    (\<forall>p. by_priority (get_task_statistics asg w') (priority_value p) =
       (let n = length (filter (\<lambda>t. priority t = p) (get_all None asg None 1000 0 w'))
        in if n = 0 then None else Some n))"
proof -
  have ip: "length (filter (\<lambda>m. m_status m = IN_PROGRESS) (tasks w)) = 0"
    using length_by_status [of "tasks w"] assms(1-4) by linarith
  have lc: "length (filter (\<lambda>m. m_priority m = LOW) (tasks w)) = 0"
    "length (filter (\<lambda>m. m_priority m = CRITICAL) (tasks w)) = 0"
    using length_by_priority [of "tasks w"] assms(1,5,6) by linarith+
  have tot: "total (get_task_statistics None w) = 5"
    using assms(1) by (simp add: get_task_statistics_def count_def matches_def [abs_def])
  have cnt: "count (Some st) None w = length (filter (\<lambda>m. m_status m = st) (tasks w))" for st
    by (simp add: count_def matches_def [abs_def])
  have bs: "by_status (get_task_statistics None w) =
      [''pending'' \<mapsto> 3, ''completed'' \<mapsto> 1, ''cancelled'' \<mapsto> 1]"
    using assms(2-4) ip by (simp add: get_task_statistics_def status_step_def cnt)
  have small: "length (tasks w) \<le> 1000"
    using assms(1) by simp
  have fetched: "length (filter (\<lambda>t. priority t = p) (get_all None None None 1000 0 w)) =
      length (filter (\<lambda>m. m_priority m = p) (tasks w))" for p
    using small by (rule count_get_all)
  have bp: "by_priority (get_task_statistics None w) k =
      [''medium'' \<mapsto> 4, ''high'' \<mapsto> 1] k" for k
  proof (cases "\<exists>p. k = priority_value p")
    case True
    then obtain p where k: "k = priority_value p" ..
    have "by_priority (get_task_statistics None w) (priority_value p) =
        (let n = length (filter (\<lambda>m. m_priority m = p) (tasks w))
         in if n = 0 then None else Some n)"
      by (simp add: get_task_statistics_def tally_priority fetched)
    then show ?thesis
      unfolding k
      using assms(5,6) lc
      by (cases p) simp_all
  next
    case False
    then have no: "\<forall>p. k \<noteq> priority_value p"
      by simp
    then have "k \<noteq> priority_value MEDIUM" and "k \<noteq> priority_value HIGH"
      by blast+
    then show ?thesis
      using tally_other [OF no] by (simp add: get_task_statistics_def)
  qed
  then have bp': "by_priority (get_task_statistics None w) = [''medium'' \<mapsto> 4, ''high'' \<mapsto> 1]"
    by (rule ext)
  have first: "get_task_statistics None w =
      \<lparr>total = 5,
       by_status = [''pending'' \<mapsto> 3, ''completed'' \<mapsto> 1, ''cancelled'' \<mapsto> 1],
       by_priority = [''medium'' \<mapsto> 4, ''high'' \<mapsto> 1]\<rparr>"
    using tot bs bp' by (intro Statistics.equality) simp_all
  have none: "by_status (get_task_statistics None w) ''in_progress'' = None"
    by (simp add: bs)
  have gen: "by_priority (get_task_statistics asg w') =
      fold priority_step (get_all None asg None 1000 0 w') Map.empty"
    by (simp add: get_task_statistics_def)
  have tally: "\<forall>p. by_priority (get_task_statistics asg w') (priority_value p) =
       (let n = length (filter (\<lambda>t. priority t = p) (get_all None asg None 1000 0 w'))
        in if n = 0 then None else Some n)"
    by (simp only: gen tally_priority) simp
  from first none length_get_all gen tally show ?thesis
    by blast
qed

theorem statistics_example_witness:
  "get_task_statistics None
     \<lparr>tasks =
        [\<lparr>m_id = 1, m_title = ''t'', m_description = ''d'', m_status = PENDING,
          m_priority = MEDIUM, m_assigned_to = None, m_created_at = 1, m_updated_at = 1,
          m_completed_at = None\<rparr>,
         \<lparr>m_id = 2, m_title = ''t'', m_description = ''d'', m_status = PENDING,
          m_priority = HIGH, m_assigned_to = None, m_created_at = 2, m_updated_at = 2,
          m_completed_at = None\<rparr>,
         \<lparr>m_id = 3, m_title = ''t'', m_description = ''d'', m_status = PENDING,
          m_priority = MEDIUM, m_assigned_to = None, m_created_at = 3, m_updated_at = 3,
          m_completed_at = None\<rparr>,
         \<lparr>m_id = 4, m_title = ''t'', m_description = ''d'', m_status = COMPLETED,
          m_priority = MEDIUM, m_assigned_to = None, m_created_at = 4, m_updated_at = 8,
          m_completed_at = Some 9\<rparr>,
         \<lparr>m_id = 5, m_title = ''t'', m_description = ''d'', m_status = CANCELLED,
          m_priority = MEDIUM, m_assigned_to = None, m_created_at = 5, m_updated_at = 9,
          m_completed_at = None\<rparr>],
      uow_session = None, client_initialized = True, broker_up = True, stream = [],
      calls = []\<rparr> =
   \<lparr>total = 5,
    by_status = [''pending'' \<mapsto> 3, ''completed'' \<mapsto> 1, ''cancelled'' \<mapsto> 1],
    by_priority = [''medium'' \<mapsto> 4, ''high'' \<mapsto> 1]\<rparr>"
proof -
  let ?W = "\<lparr>tasks =
        [\<lparr>m_id = 1, m_title = ''t'', m_description = ''d'', m_status = PENDING,
          m_priority = MEDIUM, m_assigned_to = None, m_created_at = 1, m_updated_at = 1,
          m_completed_at = None\<rparr>,
         \<lparr>m_id = 2, m_title = ''t'', m_description = ''d'', m_status = PENDING,
          m_priority = HIGH, m_assigned_to = None, m_created_at = 2, m_updated_at = 2,
          m_completed_at = None\<rparr>,
         \<lparr>m_id = 3, m_title = ''t'', m_description = ''d'', m_status = PENDING,
          m_priority = MEDIUM, m_assigned_to = None, m_created_at = 3, m_updated_at = 3,
          m_completed_at = None\<rparr>,
         \<lparr>m_id = 4, m_title = ''t'', m_description = ''d'', m_status = COMPLETED,
          m_priority = MEDIUM, m_assigned_to = None, m_created_at = 4, m_updated_at = 8,
          m_completed_at = Some 9\<rparr>,
         \<lparr>m_id = 5, m_title = ''t'', m_description = ''d'', m_status = CANCELLED,
          m_priority = MEDIUM, m_assigned_to = None, m_created_at = 5, m_updated_at = 9,
          m_completed_at = None\<rparr>],
      uow_session = None, client_initialized = True, broker_up = True, stream = [],
      calls = []\<rparr>"
  have h1: "length (tasks ?W) = 5"
    by simp
  have h2: "length (filter (\<lambda>m. m_status m = PENDING) (tasks ?W)) = 3"
    by simp
  have h3: "length (filter (\<lambda>m. m_status m = COMPLETED) (tasks ?W)) = 1"
    by simp
  have h4: "length (filter (\<lambda>m. m_status m = CANCELLED) (tasks ?W)) = 1"
    by simp
  have h5: "length (filter (\<lambda>m. m_priority m = MEDIUM) (tasks ?W)) = 4"
    by simp
  have h6: "length (filter (\<lambda>m. m_priority m = HIGH) (tasks ?W)) = 1"
    by simp
  show ?thesis
    by (rule statistics_example [OF h1 h2 h3 h4 h5 h6, THEN conjunct1])
qed

section \<open>The consumer loop\<close>











end
